theory Spec2Isabelle
  imports Main "HOL-Library.Char_ord" "HOL-Library.List_Lexorder"
begin

section \<open>JavaScript values\<close>

text \<open>
  The chat hook and the message actions work on untyped values (\<^verbatim>\<open>any\<close>): parsed stream
  frames, chat messages, metadata bags.  They are modelled by one datatype of JSON-like
  values.  Numbers are integers (thread ids, response ids, timestamps) or NaN; non-integral
  numbers and the loss of precision of doubles beyond \<open>2^53\<close> are outside the model.  An
  object is the list of its own properties in insertion order.  A string is the list of its
  UTF-16 code units; the model holds the code units below 256 (the type \<open>char\<close>), so
  characters beyond U+00FF are outside the model.
\<close>

datatype json =
    JUndefined
  | JNull
  | JBool bool
  | JNum int
  | JNaN
  | JStr string
  | JArr "json list"
  | JObj "(string \<times> json) list"

type_synonym jobj = "(string \<times> json) list"

datatype js_error = TypeError | SyntaxError

text \<open>Truthiness, and \<^verbatim>\<open>a || b\<close>.\<close>

fun truthy :: "json \<Rightarrow> bool" where
  "truthy JUndefined = False"
| "truthy JNull = False"
| "truthy (JBool b) = b"
| "truthy (JNum n) = (n \<noteq> 0)"
| "truthy JNaN = False"
| "truthy (JStr s) = (s \<noteq> [])"
| "truthy (JArr xs) = True"
| "truthy (JObj kvs) = True"

definition js_or :: "json \<Rightarrow> json \<Rightarrow> json" where
  "js_or a b = (if truthy a then a else b)"

text \<open>
  Property access.  \<^verbatim>\<open>v?.k\<close> is \<^verbatim>\<open>undefined\<close> on \<^verbatim>\<open>null\<close> and \<^verbatim>\<open>undefined\<close>;
  \<^verbatim>\<open>v.k\<close> throws a TypeError there.  On strings, numbers, booleans and arrays the
  property names the code reads (\<^verbatim>\<open>step\<close>, \<^verbatim>\<open>message\<close>, \<^verbatim>\<open>id\<close>, ...) are not defined.
\<close>

fun get_opt :: "json \<Rightarrow> string \<Rightarrow> json" where
  "get_opt (JObj kvs) k = (case map_of kvs k of Some v \<Rightarrow> v | None \<Rightarrow> JUndefined)"
| "get_opt v k = JUndefined"

fun nullish :: "json \<Rightarrow> bool" where
  "nullish JUndefined = True"
| "nullish JNull = True"
| "nullish v = False"

definition get_strict :: "json \<Rightarrow> string \<Rightarrow> js_error + json" where
  "get_strict v k = (if nullish v then Inl TypeError else Inr (get_opt v k))"

text \<open>
  Writing a property: an existing key keeps its position, a new key is appended.  The
  spread \<^verbatim>\<open>{...a, ...b}\<close> writes the properties of \<^verbatim>\<open>b\<close> over those of \<^verbatim>\<open>a\<close>.
\<close>

fun obj_set :: "string \<Rightarrow> json \<Rightarrow> jobj \<Rightarrow> jobj" where
  "obj_set k v [] = [(k, v)]"
| "obj_set k v ((k', v') # kvs) =
     (if k = k' then (k, v) # kvs else (k', v') # obj_set k v kvs)"

fun spread :: "jobj \<Rightarrow> jobj \<Rightarrow> jobj" where
  "spread a [] = a"
| "spread a ((k, v) # kvs) = spread (obj_set k v a) kvs"

text \<open>Decimal digits of a number, as \<^verbatim>\<open>Number.prototype.toString\<close> prints an integer.\<close>

definition digit_char :: "nat \<Rightarrow> char" where
  "digit_char d = ''0123456789'' ! d"

fun show_nat :: "nat \<Rightarrow> string" where
  "show_nat n = (if n < 10 then [digit_char n] else show_nat (n div 10) @ [digit_char (n mod 10)])"

declare show_nat.simps [simp del]

definition show_int :: "int \<Rightarrow> string" where
  "show_int i = (if i < 0 then CHR ''-'' # show_nat (nat (- i)) else show_nat (nat i))"

text \<open>
  \<^verbatim>\<open>ToString\<close>, as a template literal and string concatenation apply it.  An array prints
  its elements joined by commas, \<^verbatim>\<open>null\<close> and \<^verbatim>\<open>undefined\<close> elements as the empty string.
\<close>

fun join_with :: "string \<Rightarrow> string list \<Rightarrow> string" where
  "join_with sep [] = []"
| "join_with sep [x] = x"
| "join_with sep (x # y # ys) = x @ sep @ join_with sep (y # ys)"

fun to_str :: "json \<Rightarrow> string" where
  "to_str JUndefined = ''undefined''"
| "to_str JNull = ''null''"
| "to_str (JBool b) = (if b then ''true'' else ''false'')"
| "to_str (JNum n) = show_int n"
| "to_str JNaN = ''NaN''"
| "to_str (JStr s) = s"
| "to_str (JArr xs) = join_with '','' (map (\<lambda>x. if nullish x then [] else to_str x) xs)"
| "to_str (JObj kvs) = ''[object Object]''"

text \<open>\<^verbatim>\<open>v?.toString()\<close>: \<^verbatim>\<open>undefined\<close> on a nullish value, its string otherwise.\<close>

definition toString_opt :: "json \<Rightarrow> string option" where
  "toString_opt v = (if nullish v then None else Some (to_str v))"

text \<open>
  \<^verbatim>\<open>v == 'lit'\<close> for a string literal that is not numeric (\<^verbatim>\<open>'end'\<close>, \<^verbatim>\<open>'error'\<close>, ...):
  a string compares by value, an array or object by its primitive (its string); a number or
  boolean is compared with \<^verbatim>\<open>Number('lit')\<close>, which is NaN, so the result is false.
\<close>

fun loose_eq_lit :: "json \<Rightarrow> string \<Rightarrow> bool" where
  "loose_eq_lit (JStr s) lit = (s = lit)"
| "loose_eq_lit (JArr xs) lit = (to_str (JArr xs) = lit)"
| "loose_eq_lit (JObj kvs) lit = (to_str (JObj kvs) = lit)"
| "loose_eq_lit v lit = False"

text \<open>
  \<^verbatim>\<open>a === b\<close>.  Arrays and objects compare by reference; the two sides the code compares
  come from different parses, so they are never the same reference.
\<close>

fun strict_eq :: "json \<Rightarrow> json \<Rightarrow> bool" where
  "strict_eq JUndefined JUndefined = True"
| "strict_eq JNull JNull = True"
| "strict_eq (JBool a) (JBool b) = (a = b)"
| "strict_eq (JNum a) (JNum b) = (a = b)"
| "strict_eq (JStr a) (JStr b) = (a = b)"
| "strict_eq a b = False"

subsection \<open>parseInt\<close>

text \<open>
  \<^verbatim>\<open>parseInt(s)\<close> without radix: leading white space is skipped, a sign is read, a prefix
  \<^verbatim>\<open>0x\<close> selects radix 16, and the longest run of digits is the value; with no digit the
  result is NaN, here \<open>None\<close>.  Every comparison with NaN is false.  The white space
  that \<^verbatim>\<open>parseInt\<close> skips and \<^verbatim>\<open>trim\<close> removes is, among the code units below 256:
  space, TAB, LF, VT, FF, CR and the no-break space U+00A0.
\<close>

definition is_js_space :: "char \<Rightarrow> bool" where
  "is_js_space c = (c \<in> set [CHR '' '', CHR 0x09, CHR 0x0A, CHR 0x0B, CHR 0x0C, CHR 0x0D, CHR 0xA0])"

definition digit_val :: "char \<Rightarrow> nat option" where
  "digit_val c =
     (let n = (of_char c :: nat) in
      if 48 \<le> n \<and> n \<le> 57 then Some (n - 48)
      else if 97 \<le> n \<and> n \<le> 102 then Some (n - 87)
      else if 65 \<le> n \<and> n \<le> 70 then Some (n - 55)
      else None)"

definition is_digit_in :: "nat \<Rightarrow> char \<Rightarrow> bool" where
  "is_digit_in r c = (case digit_val c of Some d \<Rightarrow> d < r | None \<Rightarrow> False)"

definition digits_value :: "nat \<Rightarrow> string \<Rightarrow> nat" where
  "digits_value r ds = foldl (\<lambda>acc c. acc * r + (case digit_val c of Some d \<Rightarrow> d | None \<Rightarrow> 0)) 0 ds"

definition parseInt :: "string \<Rightarrow> int option" where
  "parseInt s =
     (let t = dropWhile is_js_space s;
          (sgn, t1) = (case t of c # rest \<Rightarrow>
                         if c = CHR ''-'' then (- 1, rest)
                         else if c = CHR ''+'' then (1, rest) else (1 :: int, t)
                       | [] \<Rightarrow> (1, t));
          (r, t2) = (case t1 of a # b # rest \<Rightarrow>
                         if a = CHR ''0'' \<and> (b = CHR ''x'' \<or> b = CHR ''X'') then (16 :: nat, rest)
                         else (10, t1)
                       | _ \<Rightarrow> (10, t1));
          z = takeWhile (is_digit_in r) t2
      in if z = [] then None else Some (sgn * int (digits_value r z)))"

definition num_of :: "int option \<Rightarrow> json" where
  "num_of a = (case a of Some x \<Rightarrow> JNum x | None \<Rightarrow> JNaN)"

definition nan_less :: "int option \<Rightarrow> int \<Rightarrow> bool" where
  "nan_less a b = (case a of Some x \<Rightarrow> x < b | None \<Rightarrow> False)"

definition nan_greater :: "int option \<Rightarrow> int \<Rightarrow> bool" where
  "nan_greater a b = (case a of Some x \<Rightarrow> x > b | None \<Rightarrow> False)"

section \<open>Identity reconciler: does a response belong to the open thread\<close>

text \<open>
  \<^verbatim>\<open>isResponseForCurrentThread\<close> of the chat hook.  \<open>activeThreadId\<close> is
  \<^verbatim>\<open>string | null\<close> (from localStorage), the other two ids are \<^verbatim>\<open>string | undefined\<close>;
  \<open>None\<close> stands for \<^verbatim>\<open>null\<close> on the first and for \<^verbatim>\<open>undefined\<close> on the others, and
  \<^verbatim>\<open>null === undefined\<close> is false.
\<close>

definition null_eq_undef :: "string option \<Rightarrow> string option \<Rightarrow> bool" where
  "null_eq_undef a b = (case (a, b) of (Some x, Some y) \<Rightarrow> x = y | _ \<Rightarrow> False)"

definition or_zero :: "string option \<Rightarrow> string" where
  "or_zero a = (case a of Some s \<Rightarrow> if s = [] then ''0'' else s | None \<Rightarrow> ''0'')"

definition str_truthy :: "string option \<Rightarrow> bool" where
  "str_truthy r = (case r of Some s \<Rightarrow> s \<noteq> [] | None \<Rightarrow> False)"

definition isResponseForCurrentThread ::
  "string option \<Rightarrow> string option \<Rightarrow> string option \<Rightarrow> bool \<Rightarrow> bool" where
  "isResponseForCurrentThread activeThreadId responseThreadId currentThreadId isLocalThread =
     (if null_eq_undef activeThreadId responseThreadId then True
      else if null_eq_undef activeThreadId currentThreadId then True
      else if isLocalThread \<and> str_truthy responseThreadId
              \<and> nan_less (parseInt (or_zero activeThreadId)) 0 then True
      else False)"

section \<open>Persistent local store\<close>

text \<open>
  The three object stores of the IndexedDB layer.  Field names that occur in more than one
  interface carry a prefix (\<open>s_\<close>, \<open>t_\<close>, \<open>m_\<close>).
\<close>

record SessionMetadata =
  sessionId :: string
  s_createdAt :: int
  lastSyncedAt :: "int option"
  threadCount :: int
  lastTokenRefresh :: "int option"

datatype role = User | Assistant

record StoredMessage =
  messageId :: string
  m_threadId :: string
  m_role :: role
  m_content :: string
  m_createdAt :: int
  m_metadata :: jobj

record StoredThread =
  threadId :: string
  title :: string
  t_createdAt :: int
  updatedAt :: int
  messageIds :: "string list"
  t_metadata :: jobj

text \<open>
  The environment of the store functions: the object stores (each a list of records in
  key order, as IndexedDB keeps them; keys are ASCII strings), the session id kept in
  sessionStorage, the clock behind \<^verbatim>\<open>Date.now()\<close>, the console, and the two ways an
  underlying operation can fail: \<open>open_fails\<close> makes \<^verbatim>\<open>openDatabase\<close> reject,
  \<open>request_fails\<close> makes every request on an opened database fire \<^verbatim>\<open>onerror\<close>.
\<close>

record world =
  sessions :: "(string \<times> SessionMetadata) list"
  threads :: "(string \<times> StoredThread) list"
  messages :: "(string \<times> StoredMessage) list"
  ejento_session_id :: "string option"
  random36 :: string
  clock :: "nat \<Rightarrow> int"
  ticks :: nat
  console :: "string list"
  open_fails :: bool
  request_fails :: bool

text \<open>A promise settles with a value, rejects with an error, or never settles.\<close>

datatype 'a outcome = Resolved 'a | Rejected string | Pending

type_synonym 'a promise = "'a outcome \<times> world"

definition thenP :: "'a promise \<Rightarrow> ('a \<Rightarrow> world \<Rightarrow> 'b promise) \<Rightarrow> 'b promise" where
  "thenP r f = (case r of (Resolved x, w) \<Rightarrow> f x w
                        | (Rejected e, w) \<Rightarrow> (Rejected e, w)
                        | (Pending, w) \<Rightarrow> (Pending, w))"

definition console_error :: "string \<Rightarrow> world \<Rightarrow> world" where
  "console_error msg w = w\<lparr>console := console w @ [msg]\<rparr>"

text \<open>\<^verbatim>\<open>try { ... } catch (error) { console.error(label, error); throw error; }\<close>\<close>

definition catch_rethrow :: "string \<Rightarrow> 'a promise \<Rightarrow> 'a promise" where
  "catch_rethrow label r = (case r of (Rejected e, w) \<Rightarrow> (Rejected e, console_error label w)
                                    | _ \<Rightarrow> r)"

text \<open>\<^verbatim>\<open>try { ... } catch (error) { console.error(label, error); return v; }\<close>\<close>

definition catch_return :: "string \<Rightarrow> 'a \<Rightarrow> 'a promise \<Rightarrow> 'a promise" where
  "catch_return label v r = (case r of (Rejected e, w) \<Rightarrow> (Resolved v, console_error label w)
                                     | _ \<Rightarrow> r)"

text \<open>
  An \<^verbatim>\<open>async\<close> event handler that calls \<^verbatim>\<open>resolve\<close> as its last statement: when an
  awaited call inside it rejects, \<^verbatim>\<open>resolve\<close> is never reached and the promise stays pending.
\<close>

definition handler_then_resolve :: "'a promise \<Rightarrow> 'b \<Rightarrow> 'b promise" where
  "handler_then_resolve r v = (case r of (Resolved x, w) \<Rightarrow> (Resolved v, w)
                                       | (_, w) \<Rightarrow> (Pending, w))"

definition Date_now :: "world \<Rightarrow> int \<times> world" where
  "Date_now w = (clock w (ticks w), w\<lparr>ticks := Suc (ticks w)\<rparr>)"

definition openDatabase :: "world \<Rightarrow> unit promise" where
  "openDatabase w = (if open_fails w then (Rejected ''Failed to open database'', w)
                     else (Resolved (), w))"

definition generateSessionId :: "world \<Rightarrow> string \<times> world" where
  "generateSessionId w =
     (case ejento_session_id w of
        Some existing \<Rightarrow>
          if existing \<noteq> [] then (existing, w)
          else (let (now, w1) = Date_now w;
                    sid = ''session_'' @ show_int now @ ''_'' @ random36 w1
                in (sid, w1\<lparr>ejento_session_id := Some sid\<rparr>))
      | None \<Rightarrow>
          (let (now, w1) = Date_now w;
               sid = ''session_'' @ show_int now @ ''_'' @ random36 w1
           in (sid, w1\<lparr>ejento_session_id := Some sid\<rparr>)))"

subsection \<open>Requests on an object store\<close>

fun store_put :: "string \<Rightarrow> 'v \<Rightarrow> (string \<times> 'v) list \<Rightarrow> (string \<times> 'v) list" where
  "store_put k v [] = [(k, v)]"
| "store_put k v ((k', v') # kvs) =
     (if k = k' then (k, v) # kvs
      else if k < k' then (k, v) # (k', v') # kvs
      else (k', v') # store_put k v kvs)"

definition store_delete :: "string \<Rightarrow> (string \<times> 'v) list \<Rightarrow> (string \<times> 'v) list" where
  "store_delete k kvs = filter (\<lambda>kv. fst kv \<noteq> k) kvs"

text \<open>
  A request on an opened database: \<^verbatim>\<open>onerror\<close> rejects with the message of the caller,
  \<^verbatim>\<open>onsuccess\<close> continues.  Every operation but the loop of \<^verbatim>\<open>migrateThread\<close>
  returns the promise that wraps its request without \<^verbatim>\<open>await\<close>, so a rejection of it
  is not seen by the \<^verbatim>\<open>try\<close> block that created it; the definitions below apply the
  handler of the \<^verbatim>\<open>catch\<close> block to the awaited part only.
\<close>

definition request :: "string \<Rightarrow> (world \<Rightarrow> 'a promise) \<Rightarrow> world \<Rightarrow> 'a promise" where
  "request err onsuccess w = (if request_fails w then (Rejected err, w) else onsuccess w)"

subsection \<open>Session metadata\<close>

definition getSessionMetadata :: "world \<Rightarrow> SessionMetadata option promise" where
  "getSessionMetadata w =
     thenP (catch_return ''Error getting session metadata:'' None
              (thenP (openDatabase w) (\<lambda>db w1.
                 let (sid, w2) = generateSessionId w1 in (Resolved (Some sid), w2))))
       (\<lambda>r w3. case r of
            None \<Rightarrow> (Resolved None, w3)
          | Some sid \<Rightarrow>
              request ''Failed to get session metadata''
                (\<lambda>w4. (Resolved (map_of (sessions w4) sid), w4)) w3)"

text \<open>\<^verbatim>\<open>Partial<SessionMetadata>\<close>: \<open>None\<close> is an absent property.\<close>

record SessionUpdate =
  u_sessionId :: "string option"
  u_createdAt :: "int option"
  u_lastSyncedAt :: "int option option"
  u_threadCount :: "int option"
  u_lastTokenRefresh :: "int option option"

definition no_update :: SessionUpdate where
  "no_update = \<lparr>u_sessionId = None, u_createdAt = None, u_lastSyncedAt = None,
                 u_threadCount = None, u_lastTokenRefresh = None\<rparr>"

text \<open>\<^verbatim>\<open>x || null\<close> and \<^verbatim>\<open>x || d\<close> on numbers: 0 is falsy.\<close>

definition or_null :: "int option \<Rightarrow> int option" where
  "or_null x = (case x of Some v \<Rightarrow> if v = 0 then None else Some v | None \<Rightarrow> None)"

definition or_default :: "int option \<Rightarrow> int \<Rightarrow> int" where
  "or_default x d = (case x of Some v \<Rightarrow> if v = 0 then d else v | None \<Rightarrow> d)"

definition createOrUpdateSessionMetadata :: "SessionUpdate \<Rightarrow> world \<Rightarrow> SessionMetadata promise" where
  "createOrUpdateSessionMetadata metadata w =
     thenP (catch_rethrow ''Error saving session metadata:''
              (thenP (openDatabase w) (\<lambda>db w1.
                 let (sid, w2) = generateSessionId w1 in
                 thenP (getSessionMetadata w2) (\<lambda>existing w3.
                   let (now, w4) = Date_now w3;
                       sessionData =
                         \<lparr>sessionId = (case u_sessionId metadata of Some s \<Rightarrow> s | None \<Rightarrow> sid),
                          s_createdAt = (case u_createdAt metadata of Some c \<Rightarrow> c
                                         | None \<Rightarrow> or_default (map_option s_createdAt existing) now),
                          lastSyncedAt = (case u_lastSyncedAt metadata of Some l \<Rightarrow> l
                                          | None \<Rightarrow> or_null (Option.bind existing lastSyncedAt)),
                          threadCount = (case u_threadCount metadata of Some c \<Rightarrow> c
                                         | None \<Rightarrow> or_default (map_option threadCount existing) 0),
                          lastTokenRefresh = (case u_lastTokenRefresh metadata of Some l \<Rightarrow> l
                                              | None \<Rightarrow> or_null (Option.bind existing lastTokenRefresh))\<rparr>
                   in (Resolved sessionData, w4)))))
       (\<lambda>sessionData.
          request ''Failed to save session metadata''
            (\<lambda>w5. (Resolved sessionData,
                    w5\<lparr>sessions := store_put (sessionId sessionData) sessionData (sessions w5)\<rparr>)))"

text \<open>
  The thread count is kept by a secondary write that the primary operation does not wait
  for: \<^verbatim>\<open>getSessionMetadata().then(session => { if (...) createOrUpdateSessionMetadata(...) })\<close>.
  Its outcome is dropped.  The model runs it to completion before the next operation
  starts.
\<close>

definition adjust_threadCount :: "(int \<Rightarrow> bool) \<Rightarrow> (int \<Rightarrow> int) \<Rightarrow> world \<Rightarrow> unit promise" where
  "adjust_threadCount guard f w =
     thenP (getSessionMetadata w) (\<lambda>session w1.
       case session of
         None \<Rightarrow> (Resolved (), w1)
       | Some s \<Rightarrow>
           if guard (threadCount s)
           then thenP (createOrUpdateSessionMetadata (no_update\<lparr>u_threadCount := Some (f (threadCount s))\<rparr>) w1)
                  (\<lambda>r w2. (Resolved (), w2))
           else (Resolved (), w1))"

definition detached :: "'a promise \<Rightarrow> world" where
  "detached r = snd r"

subsection \<open>Threads\<close>

definition createThread :: "string \<Rightarrow> string \<Rightarrow> jobj option \<Rightarrow> world \<Rightarrow> StoredThread promise" where
  "createThread tid ttl metadata w =
     thenP (catch_rethrow ''Error creating thread:''
              (thenP (openDatabase w) (\<lambda>db w1.
                 let (now, w2) = Date_now w1;
                     thread = \<lparr>threadId = tid, title = ttl, t_createdAt = now, updatedAt = now,
                               messageIds = [],
                               t_metadata = (case metadata of Some m \<Rightarrow> m | None \<Rightarrow> [])\<rparr>
                 in (Resolved thread, w2))))
       (\<lambda>thread.
          request ''Failed to create thread''
            (\<lambda>w3. let w4 = w3\<lparr>threads := store_put (threadId thread) thread (threads w3)\<rparr>
                   in (Resolved thread, detached (adjust_threadCount (\<lambda>c. True) (\<lambda>c. c + 1) w4))))"

definition getThread :: "string \<Rightarrow> world \<Rightarrow> StoredThread option promise" where
  "getThread tid w =
     thenP (catch_return ''Error getting thread:'' False
              (thenP (openDatabase w) (\<lambda>db w1. (Resolved True, w1))))
       (\<lambda>opened w2.
          if opened
          then request ''Failed to get thread'' (\<lambda>w3. (Resolved (map_of (threads w3) tid), w3)) w2
          else (Resolved None, w2))"

text \<open>\<^verbatim>\<open>Partial<Pick<StoredThread, 'title' | 'messageIds' | 'metadata'>>\<close>\<close>

record ThreadUpdates =
  u_title :: "string option"
  u_messageIds :: "string list option"
  u_metadata :: "jobj option"

definition no_updates :: ThreadUpdates where
  "no_updates = \<lparr>u_title = None, u_messageIds = None, u_metadata = None\<rparr>"

definition updateThread :: "string \<Rightarrow> ThreadUpdates \<Rightarrow> world \<Rightarrow> StoredThread promise" where
  "updateThread tid updates w =
     thenP (catch_rethrow ''Error updating thread:''
              (thenP (getThread tid w) (\<lambda>existing w1.
                 case existing of
                   None \<Rightarrow> (Rejected (''Thread '' @ tid @ '' not found''), w1)
                 | Some ex \<Rightarrow>
                     let (now, w2) = Date_now w1;
                         updated = ex\<lparr>title := (case u_title updates of Some t \<Rightarrow> t | None \<Rightarrow> title ex),
                                      messageIds := (case u_messageIds updates of Some ms \<Rightarrow> ms
                                                     | None \<Rightarrow> messageIds ex),
                                      t_metadata := (case u_metadata updates of Some m \<Rightarrow> m
                                                     | None \<Rightarrow> t_metadata ex),
                                      updatedAt := now\<rparr>
                     in thenP (openDatabase w2) (\<lambda>db w3. (Resolved updated, w3)))))
       (\<lambda>updated.
          request ''Failed to update thread''
            (\<lambda>w4. (Resolved updated,
                    w4\<lparr>threads := store_put (threadId updated) updated (threads w4)\<rparr>)))"

definition getAllThreads :: "world \<Rightarrow> StoredThread list promise" where
  "getAllThreads w =
     thenP (catch_return ''Error getting all threads:'' False
              (thenP (openDatabase w) (\<lambda>db w1. (Resolved True, w1))))
       (\<lambda>opened w2.
          if opened
          then request ''Failed to get all threads''
                 (\<lambda>w3. (Resolved (sort_key (\<lambda>t. - updatedAt t)
                                     (sort_key updatedAt (map snd (threads w3)))), w3)) w2
          else (Resolved [], w2))"

subsection \<open>Messages\<close>

definition getMessage :: "string \<Rightarrow> world \<Rightarrow> StoredMessage option promise" where
  "getMessage mid w =
     thenP (catch_return ''Error getting message:'' False
              (thenP (openDatabase w) (\<lambda>db w1. (Resolved True, w1))))
       (\<lambda>opened w2.
          if opened
          then request ''Failed to get message'' (\<lambda>w3. (Resolved (map_of (messages w3) mid), w3)) w2
          else (Resolved None, w2))"

text \<open>
  The index on \<^verbatim>\<open>threadId\<close> returns the messages of the thread in key order; the code
  then sorts them by creation time (the sort is stable).
\<close>

definition getMessagesByThreadId :: "string \<Rightarrow> world \<Rightarrow> StoredMessage list promise" where
  "getMessagesByThreadId tid w =
     thenP (catch_return ''Error getting messages by thread ID:'' False
              (thenP (openDatabase w) (\<lambda>db w1. (Resolved True, w1))))
       (\<lambda>opened w2.
          if opened
          then request ''Failed to get messages''
                 (\<lambda>w3. (Resolved (sort_key m_createdAt
                                     (filter (\<lambda>m. m_threadId m = tid) (map snd (messages w3)))), w3)) w2
          else (Resolved [], w2))"

definition createMessage ::
  "string \<Rightarrow> string \<Rightarrow> role \<Rightarrow> string \<Rightarrow> jobj option \<Rightarrow> world \<Rightarrow> StoredMessage promise" where
  "createMessage mid tid r c metadata w =
     thenP (catch_rethrow ''Error creating message:''
              (thenP (openDatabase w) (\<lambda>db w1.
                 let (now, w2) = Date_now w1;
                     message = \<lparr>messageId = mid, m_threadId = tid, m_role = r, m_content = c,
                                m_createdAt = now,
                                m_metadata = (case metadata of Some m \<Rightarrow> m | None \<Rightarrow> [])\<rparr>
                 in (Resolved message, w2))))
       (\<lambda>message.
          request ''Failed to create message''
            (\<lambda>w3. let w4 = w3\<lparr>messages := store_put (messageId message) message (messages w3)\<rparr>
                   in handler_then_resolve
                        (thenP (getThread tid w4) (\<lambda>thread w5.
                           case thread of
                             None \<Rightarrow> (Resolved (), w5)
                           | Some th \<Rightarrow>
                               thenP (updateThread tid
                                        (no_updates\<lparr>u_messageIds := Some (messageIds th @ [mid])\<rparr>) w5)
                                 (\<lambda>u w6. (Resolved (), w6))))
                        message))"

text \<open>\<^verbatim>\<open>Partial<Pick<StoredMessage, 'content' | 'metadata'>>\<close>\<close>

record MessageUpdates =
  u_content :: "string option"
  um_metadata :: "jobj option"

definition updateMessage :: "string \<Rightarrow> MessageUpdates \<Rightarrow> world \<Rightarrow> StoredMessage promise" where
  "updateMessage mid updates w =
     thenP (catch_rethrow ''Error updating message:''
              (thenP (getMessage mid w) (\<lambda>existing w1.
                 case existing of
                   None \<Rightarrow> (Rejected (''Message '' @ mid @ '' not found''), w1)
                 | Some ex \<Rightarrow>
                     let updated = ex\<lparr>m_content := (case u_content updates of Some c \<Rightarrow> c
                                                    | None \<Rightarrow> m_content ex),
                                      m_metadata := (case um_metadata updates of Some m \<Rightarrow> m
                                                     | None \<Rightarrow> m_metadata ex)\<rparr>
                     in thenP (openDatabase w1) (\<lambda>db w2. (Resolved updated, w2)))))
       (\<lambda>updated.
          request ''Failed to update message''
            (\<lambda>w3. (Resolved updated,
                    w3\<lparr>messages := store_put (messageId updated) updated (messages w3)\<rparr>)))"

definition deleteMessage :: "string \<Rightarrow> world \<Rightarrow> unit promise" where
  "deleteMessage mid w =
     thenP (catch_rethrow ''Error deleting message:''
              (thenP (openDatabase w) (\<lambda>db w1. getMessage mid w1)))
       (\<lambda>message w2.
          case message of
            None \<Rightarrow> (Resolved (), w2)
          | Some msg \<Rightarrow>
              request ''Failed to delete message''
                (\<lambda>w3. let w4 = w3\<lparr>messages := store_delete mid (messages w3)\<rparr>
                       in catch_return ''Error updating thread after message deletion:'' ()
                            (thenP (getThread (m_threadId msg) w4) (\<lambda>thread w5.
                               case thread of
                                 None \<Rightarrow> (Resolved (), w5)
                               | Some th \<Rightarrow>
                                   thenP (updateThread (m_threadId msg)
                                            (no_updates\<lparr>u_messageIds :=
                                               Some (filter (\<lambda>i. i \<noteq> mid) (messageIds th))\<rparr>) w5)
                                     (\<lambda>u w6. (Resolved (), w6))))) w2)"

fun deleteMessages :: "StoredMessage list \<Rightarrow> world \<Rightarrow> unit promise" where
  "deleteMessages [] w = (Resolved (), w)"
| "deleteMessages (m # ms) w = thenP (deleteMessage (messageId m) w) (\<lambda>u. deleteMessages ms)"

definition deleteThread :: "string \<Rightarrow> world \<Rightarrow> unit promise" where
  "deleteThread tid w =
     thenP (catch_rethrow ''Error deleting thread:''
              (thenP (openDatabase w) (\<lambda>db w1.
                 thenP (getMessagesByThreadId tid w1) (\<lambda>msgs w2. deleteMessages msgs w2))))
       (\<lambda>u.
          request ''Failed to delete thread''
            (\<lambda>w3. let w4 = w3\<lparr>threads := store_delete tid (threads w3)\<rparr>
                   in (Resolved (), detached (adjust_threadCount (\<lambda>c. c > 0) (\<lambda>c. c - 1) w4))))"

subsection \<open>Migration of a thread to its server id\<close>

text \<open>
  The metadata object literal of \<^verbatim>\<open>migrateThread\<close>:
  \<^verbatim>\<open>{ serverThreadId: ..., localThreadId: ..., ...oldThread.metadata }\<close>.
\<close>

definition migrated_metadata :: "string \<Rightarrow> string \<Rightarrow> jobj \<Rightarrow> jobj" where
  "migrated_metadata oldThreadId newThreadId old_metadata =
     spread [(''serverThreadId'', if nan_greater (parseInt newThreadId) 0
                                  then num_of (parseInt newThreadId) else JNull),
             (''localThreadId'', if nan_less (parseInt oldThreadId) 0
                                 then num_of (parseInt oldThreadId) else JNull)]
            old_metadata"

text \<open>The loop that writes each message of the old thread back under the new thread id.\<close>

fun repoint_messages :: "string \<Rightarrow> StoredMessage list \<Rightarrow> string list \<Rightarrow> world \<Rightarrow> string list promise" where
  "repoint_messages newThreadId [] updatedMessageIds w = (Resolved updatedMessageIds, w)"
| "repoint_messages newThreadId (m # ms) updatedMessageIds w =
     thenP (request ''Failed to update message''
              (\<lambda>w1. (Resolved (),
                      w1\<lparr>messages := store_put (messageId m) (m\<lparr>m_threadId := newThreadId\<rparr>) (messages w1)\<rparr>)) w)
       (\<lambda>u. repoint_messages newThreadId ms (updatedMessageIds @ [messageId m]))"

definition or_title :: "string option \<Rightarrow> string \<Rightarrow> string" where
  "or_title t d = (case t of Some s \<Rightarrow> if s \<noteq> [] then s else d | None \<Rightarrow> d)"

definition migrateThread :: "string \<Rightarrow> string \<Rightarrow> string option \<Rightarrow> world \<Rightarrow> StoredThread promise" where
  "migrateThread oldThreadId newThreadId ttl w =
     thenP (catch_rethrow ''Error migrating thread:''
              (thenP (getThread oldThreadId w) (\<lambda>oldThread w1.
                 case oldThread of
                   None \<Rightarrow> (Rejected (''Thread '' @ oldThreadId @ '' not found''), w1)
                 | Some ot \<Rightarrow>
                     thenP (getMessagesByThreadId oldThreadId w1) (\<lambda>msgs w2.
                       thenP (createThread newThreadId (or_title ttl (title ot))
                                (Some (migrated_metadata oldThreadId newThreadId (t_metadata ot))) w2)
                         (\<lambda>newThread w3.
                            thenP (openDatabase w3) (\<lambda>db w4.
                              thenP (repoint_messages newThreadId msgs [] w4) (\<lambda>updatedMessageIds w5.
                                thenP (updateThread newThreadId
                                         (no_updates\<lparr>u_messageIds := Some updatedMessageIds\<rparr>) w5)
                                  (\<lambda>u w6.
                                     thenP (openDatabase w6) (\<lambda>dbForDelete w7.
                                       (Resolved newThread, w7))))))))))
       (\<lambda>newThread.
          request ''Failed to delete old thread''
            (\<lambda>w8. let w9 = w8\<lparr>threads := store_delete oldThreadId (threads w8)\<rparr>
                   in handler_then_resolve
                        (adjust_threadCount (\<lambda>c. c > 0) (\<lambda>c. c - 1) w9) newThread))"



subsection \<open>Creating a local thread (session context)\<close>

text \<open>
  \<^verbatim>\<open>createNewThread\<close> and \<^verbatim>\<open>refreshMetadata\<close> of the session provider, as far as they
  touch the store; the React state they also set is not part of the store.
\<close>

definition refreshMetadata :: "world \<Rightarrow> unit promise" where
  "refreshMetadata w =
     catch_return ''Error refreshing metadata:'' ()
       (thenP (getSessionMetadata w) (\<lambda>sessionMeta w1. (Resolved (), w1)))"

definition createNewThread :: "bool \<Rightarrow> string option \<Rightarrow> world \<Rightarrow> StoredThread promise" where
  "createNewThread isPublicAgent ttl w =
     (if \<not> isPublicAgent then (Rejected ''Public agent mode is not enabled'', w)
      else let (now, w1) = Date_now w;
               tid = show_int (- now)
           in thenP (createThread tid (case ttl of Some t \<Rightarrow> t | None \<Rightarrow> ''New Chat'')
                       (Some [(''localThreadId'', num_of (parseInt tid)), (''serverThreadId'', JNull)]) w1)
                (\<lambda>thread w2. thenP (refreshMetadata w2) (\<lambda>u w3. (Resolved thread, w3))))"

text \<open>An empty database in a browser where IndexedDB works; the clock shows \<open>t\<close>.\<close>

definition empty_world :: "int \<Rightarrow> world" where
  "empty_world t =
     \<lparr>sessions = [], threads = [], messages = [], ejento_session_id = Some ''session_1_a'',
      random36 = ''a'', clock = (\<lambda>n. t), ticks = 0, console = [],
      open_fails = False, request_fails = False\<rparr>"

subsection \<open>Auxiliary notions for the store properties\<close>

text \<open>IndexedDB is available and its requests succeed.\<close>

definition healthy :: "world \<Rightarrow> bool" where
  "healthy w = (\<not> open_fails w \<and> \<not> request_fails w)"




text \<open>
  The store as a new tab finds it: \<^verbatim>\<open>initializeSession\<close> has found no record under the
  tab's new session id and has written one with \<^verbatim>\<open>threadCount: 0\<close>, beside the two threads
  that an earlier session left in the database.
\<close>

definition fresh_tab_world :: world where
  "fresh_tab_world =
     (empty_world 100)\<lparr>
        sessions := [(''session_1_a'', \<lparr>sessionId = ''session_1_a'', s_createdAt = 100,
                        lastSyncedAt = None, threadCount = 0, lastTokenRefresh = None\<rparr>)],
        threads := [(''-3'', \<lparr>threadId = ''-3'', title = ''New Chat'', t_createdAt = 3,
                       updatedAt = 3, messageIds = [], t_metadata = []\<rparr>),
                    (''7'', \<lparr>threadId = ''7'', title = ''Old'', t_createdAt = 1,
                       updatedAt = 2, messageIds = [''m1''], t_metadata = []\<rparr>)]\<rparr>"

section \<open>Chat hook: the stream handler\<close>

text \<open>
  The state the hook keeps across the frames of a response: the React state (message list,
  flags, the streamed text shown), the refs (answer accumulator \<open>streamContentRef\<close>,
  narration buffer \<open>thoughtProcessRef\<close>, narration log \<open>reflectionEventsRef\<close>,
  \<open>isReflectingRef\<close>, the poisoned flag \<open>hasErrorOccurredRef\<close>), localStorage, and the
  calls made to collaborators, in order.  Chat messages are plain objects.  A function
  handed to \<^verbatim>\<open>setMessages\<close> is applied by React after the handler has returned; the model
  applies it at once, and records one that throws as \<open>UpdaterError\<close>, the message list
  staying as it was.
\<close>

datatype effect =
    SetQueryParams string json
  | SetTransitioningState bool
  | UpdateLocalThreadWithServerId json json json
  | ScheduleTransitionEnd
  | SaveMessage string role json jobj
  | UpdateThreadTitle string json json
  | ConsoleError string
  | ToastWarning string
  | UpdaterError js_error

record chat_state =
  messagesS :: "json list"
  streaming :: bool
  isLoading :: bool
  streamContent :: string
  streamEvents :: "json list"
  streamError :: bool
  isCache :: bool
  input :: string
  streamContentRef :: string
  thoughtProcessRef :: string
  reflectionEventsRef :: "json list"
  reflectionContentsRef :: "json list"
  isReflectingRef :: bool
  hasErrorOccurredRef :: bool
  localStorage :: "string \<Rightarrow> string option"
  effects :: "effect list"

text \<open>
  What the handlers of one submission close over: the arguments of \<^verbatim>\<open>handleSubmit\<close>, the
  \<^verbatim>\<open>input\<close> and \<^verbatim>\<open>messages\<close> state of the render that called it, the thread id and
  title from the URL, whether the PUBLIC_AGENT session is present, and which of the two
  bridging callbacks are installed on \<^verbatim>\<open>window\<close>.
\<close>

record submission =
  question :: "string option"
  regenerating :: bool
  messageIdToRegenerate :: "json option"
  sub_input :: string
  sub_messages :: "json list"
  sub_streaming :: bool
  url_id :: json
  thread_name_from_url :: json
  publicAgent :: bool
  has_setTransitioningState :: bool
  has_updateLocalThreadWithServerId :: bool

text \<open>\<^verbatim>\<open>question || input\<close>\<close>

definition question_or_input :: "submission \<Rightarrow> string" where
  "question_or_input sub = (case question sub of Some q \<Rightarrow> if q \<noteq> [] then q else sub_input sub
                            | None \<Rightarrow> sub_input sub)"

definition emit :: "effect \<Rightarrow> chat_state \<Rightarrow> chat_state" where
  "emit e s = s\<lparr>effects := effects s @ [e]\<rparr>"

definition setMessages_append :: "json \<Rightarrow> chat_state \<Rightarrow> chat_state" where
  "setMessages_append m s = s\<lparr>messagesS := messagesS s @ [m]\<rparr>"

text \<open>The two error bubbles and the completed assistant message, as the object literals
  of the handler list their properties.\<close>

definition end_error_message :: "submission \<Rightarrow> json \<Rightarrow> json \<Rightarrow> json" where
  "end_error_message sub response msg =
     JObj [(''role'', JStr ''assistant''),
           (''content'', JStr (''error:: '' @ to_str msg)),
           (''id'', url_id sub),
           (''is_upvote'', JBool False),
           (''is_downvote'', JBool False),
           (''followUpQuestions'', JArr []),
           (''references'', JArr []),
           (''query'', JStr (question_or_input sub)),
           (''guardrail_triggered'', js_or (get_opt response ''guardrail_triggered'') (JBool False)),
           (''blocked'', js_or (get_opt response ''blocked'') (JBool False))]"

definition error_frame_message :: "submission \<Rightarrow> json \<Rightarrow> json" where
  "error_frame_message sub parsedStreamData =
     (let response = get_opt parsedStreamData ''output'' in
      JObj [(''role'', JStr ''assistant''),
            (''content'', JStr (''error:: '' @
                 to_str (js_or (get_opt (get_opt response ''error'') ''details'')
                               (get_opt parsedStreamData ''message'')))),
            (''id'', url_id sub),
            (''is_upvote'', JBool False),
            (''is_downvote'', JBool False),
            (''followUpQuestions'', JArr []),
            (''references'', JArr []),
            (''query'', JStr (question_or_input sub)),
            (''guardrail_triggered'', js_or (get_opt response ''blocked'') (JBool False)),
            (''blocked'', js_or (get_opt response ''blocked'') (JBool False))])"

definition assistant_message :: "submission \<Rightarrow> json \<Rightarrow> json list \<Rightarrow> json list \<Rightarrow> json" where
  "assistant_message sub response savedReflectionEvents savedReflectionContents =
     JObj [(''role'', JStr ''assistant''),
           (''content'', get_opt response ''answer''),
           (''query'', JStr (question_or_input sub)),
           (''id'', get_opt response ''agent_response_id''),
           (''is_upvote'', JBool False),
           (''is_downvote'', JBool False),
           (''followUpQuestions'', get_opt response ''followup_questions''),
           (''references'', get_opt response ''references''),
           (''reflectionEvents'', JArr savedReflectionEvents),
           (''reflectionContents'', JArr savedReflectionContents),
           (''currentChat'', JBool True),
           (''guardrail_triggered'', js_or (get_opt response ''guardrail_triggered'') (JBool False)),
           (''blocked'', js_or (get_opt response ''blocked'') (JBool False))]"

definition assistant_metadata :: "submission \<Rightarrow> json \<Rightarrow> json list \<Rightarrow> jobj" where
  "assistant_metadata sub response savedReflectionEvents =
     [(''query'', JStr (question_or_input sub)),
      (''id'', get_opt response ''agent_response_id''),
      (''followUpQuestions'', get_opt response ''followup_questions''),
      (''references'', get_opt response ''references''),
      (''reflectionEvents'', JArr savedReflectionEvents),
      (''guardrail_triggered'', js_or (get_opt response ''guardrail_triggered'') (JBool False)),
      (''blocked'', js_or (get_opt response ''blocked'') (JBool False)),
      (''is_upvote'', JBool False),
      (''is_downvote'', JBool False)]"

text \<open>The part of the success branch that updates the active-thread pointer, the URL and
  the sidebar when the response belongs to the open thread and carries a thread id.\<close>

definition adopt_thread_id :: "submission \<Rightarrow> json \<Rightarrow> bool \<Rightarrow> chat_state \<Rightarrow> chat_state" where
  "adopt_thread_id sub response isLocalThread s =
     (let tid = get_opt response ''thread_id'';
          s1 = s\<lparr>localStorage := (localStorage s)(''active_thread_id'' \<mapsto> to_str tid)\<rparr>;
          shouldUpdateUrl = (isLocalThread
                             \<or> strict_eq (thread_name_from_url sub) (JStr ''New Thread'')
                             \<or> strict_eq (thread_name_from_url sub) (JStr ''New Chat''));
          s2 = (if shouldUpdateUrl
                then emit (SetQueryParams (to_str tid) (get_opt response ''chat_thread_name'')) s1
                else s1)
      in if isLocalThread
         then (let s3 = (if has_setTransitioningState sub then emit (SetTransitioningState True) s2 else s2);
                   s4 = (if has_updateLocalThreadWithServerId sub
                         then emit (UpdateLocalThreadWithServerId (num_of (parseInt (to_str (url_id sub))))
                                      tid (get_opt response ''chat_thread_name'')) s3
                         else s3);
                   s5 = s4\<lparr>localStorage := ((localStorage s4)(''thread_id'' := None))(''query'' := None)\<rparr>
               in emit ScheduleTransitionEnd s5)
         else s2)"

text \<open>The writes to the local store that the success branch starts (without waiting for
  them) in PUBLIC_AGENT mode.\<close>

definition last_message :: "json list \<Rightarrow> json" where
  "last_message ms = (case ms of [] \<Rightarrow> JUndefined | _ \<Rightarrow> last ms)"

definition persist_exchange :: "submission \<Rightarrow> json \<Rightarrow> json list \<Rightarrow> chat_state \<Rightarrow> chat_state" where
  "persist_exchange sub response savedReflectionEvents s =
     (if publicAgent sub \<and> truthy (url_id sub)
      then (let threadId = to_str (url_id sub);
                userMessage = last_message (sub_messages sub);
                s1 = (if truthy userMessage \<and> strict_eq (get_opt userMessage ''role'') (JStr ''user'')
                      then emit (SaveMessage threadId User (get_opt userMessage ''content'')
                                   [(''query'', get_opt userMessage ''content'')]) s
                      else s);
                s2 = emit (SaveMessage threadId Assistant (get_opt response ''answer'')
                             (assistant_metadata sub response savedReflectionEvents)) s1;
                isFirstMessage =
                  (filter (\<lambda>m. strict_eq (get_opt m ''role'') (JStr ''assistant'')) (sub_messages sub) = [])
            in if truthy (get_opt response ''chat_thread_name'') \<and> isFirstMessage
               then emit (UpdateThreadTitle threadId (get_opt response ''chat_thread_name'')
                            (get_opt response ''thread_id'')) s2
               else s2)
      else s)"

text \<open>
  \<^verbatim>\<open>onmessage\<close>.  The argument is the result of \<^verbatim>\<open>JSON.parse(event.data)\<close>, \<open>None\<close>
  when the data is not JSON (the parse throws).  The result is the error thrown, if any,
  and the state when the handler returns or throws.  In the failure branch of an \<^verbatim>\<open>end\<close>
  frame \<^verbatim>\<open>response.message\<close> is read inside the function handed to \<^verbatim>\<open>setMessages\<close>, so
  a missing \<^verbatim>\<open>output\<close> makes that function throw, not the handler; in the success branch
  \<^verbatim>\<open>response.chat_thread_name\<close> is read by the handler itself.
\<close>

definition onmessage :: "submission \<Rightarrow> json option \<Rightarrow> chat_state \<Rightarrow> js_error option \<times> chat_state" where
  "onmessage sub event_data s =
     (if hasErrorOccurredRef s then (None, s)
      else case event_data of
        None \<Rightarrow> (Some SyntaxError, s)
      | Some parsedStreamData \<Rightarrow>
         (let s0 = s\<lparr>streaming := True\<rparr>;
              step = get_opt parsedStreamData ''step'';
              hasEnded = loose_eq_lit step ''end'';
              hasError = loose_eq_lit step ''error'';
              thoughtProcess = loose_eq_lit step ''tools_stream'';
              hasReflection = (loose_eq_lit step ''reflection_end'' \<or> loose_eq_lit step ''reflection_skip'');
              s1 = (if hasReflection
                    then s0\<lparr>reflectionEventsRef :=
                              reflectionEventsRef s0 @ [get_opt parsedStreamData ''message'']\<rparr>
                    else s0);
              s2 = (if thoughtProcess
                    then s1\<lparr>isReflectingRef := True,
                            thoughtProcessRef := thoughtProcessRef s1 @ to_str (get_opt parsedStreamData ''delta''),
                            streamEvents := []\<rparr>
                    else s1)
          in if hasEnded then
               (let response = get_opt parsedStreamData ''output'' in
                if \<not> truthy (get_opt parsedStreamData ''success'') then
                  (case get_strict response ''message'' of
                     Inl err \<Rightarrow> (None, emit (UpdaterError err) s2)
                   | Inr msg \<Rightarrow> (None, setMessages_append (end_error_message sub response msg) s2))
                else
                  (case get_strict response ''chat_thread_name'' of
                     Inl err \<Rightarrow> (Some err, s2)
                   | Inr threadName \<Rightarrow>
                      (let activeThreadId = localStorage s2 ''active_thread_id'';
                           responseThreadId = toString_opt (get_opt response ''thread_id'');
                           currentThreadId = toString_opt (url_id sub);
                           isLocalThread = nan_less (parseInt (to_str (url_id sub))) 0;
                           belongsToCurrentThread =
                             isResponseForCurrentThread activeThreadId responseThreadId currentThreadId isLocalThread;
                           s3 = (if belongsToCurrentThread \<and> truthy (get_opt response ''thread_id'')
                                 then adopt_thread_id sub response isLocalThread s2 else s2)
                       in if belongsToCurrentThread
                          then (let savedReflectionEvents = reflectionEventsRef s3;
                                    savedReflectionContents = reflectionContentsRef s3;
                                    s4 = setMessages_append
                                           (assistant_message sub response savedReflectionEvents
                                              savedReflectionContents) s3
                                in (None, persist_exchange sub response savedReflectionEvents s4))
                          else (None, s3))))
             else if hasError then
               (let s3 = s2\<lparr>hasErrorOccurredRef := True\<rparr>;
                    s4 = setMessages_append (error_frame_message sub parsedStreamData) s3
                in (None, s4\<lparr>streaming := False, isLoading := False, streamContentRef := []\<rparr>))
             else
               (let parsedMsg = step in
                if strict_eq parsedMsg (JStr ''assistant_stream'') then
                  (let s3 = s2\<lparr>streamEvents := [], isLoading := False\<rparr>;
                       s4 = (if isReflectingRef s3
                             then s3\<lparr>reflectionEventsRef := reflectionEventsRef s3 @ [JStr (thoughtProcessRef s3)],
                                     isReflectingRef := False\<rparr>
                             else s3);
                       s5 = s4\<lparr>streamContentRef := streamContentRef s4 @ to_str (get_opt parsedStreamData ''delta'')\<rparr>
                   in (None, s5\<lparr>streamContent := streamContentRef s5\<rparr>))
                else
                  (let s3 = (if loose_eq_lit parsedMsg ''error''
                             then (emit (ConsoleError (to_str (get_opt parsedStreamData ''delta''))) s2)
                                    \<lparr>streamError := True\<rparr>
                             else s2);
                       s4 = s3\<lparr>streamEvents := [get_opt parsedStreamData ''message'']\<rparr>
                   in if \<not> strict_eq (get_opt parsedStreamData ''message'') (JStr [])
                      then (None, s4\<lparr>reflectionEventsRef :=
                                       reflectionEventsRef s4 @ [get_opt parsedStreamData ''message'']\<rparr>)
                      else (None, s4)))))"

text \<open>\<^verbatim>\<open>onclose\<close>, up to the abort of the submission's own controller (done by the caller
  of this function in the orchestrator model below).\<close>

definition onclose :: "chat_state \<Rightarrow> chat_state" where
  "onclose s =
     (let s1 = (if length (streamContentRef s) < 50
                then emit (ToastWarning ''Response appears incomplete. This may be due to a server issue.'') s
                else s)
      in s1\<lparr>streaming := False, streamContent := [], isLoading := False,
             streamContentRef := [], isReflectingRef := False\<rparr>)"

definition initial_chat :: chat_state where
  "initial_chat =
     \<lparr>messagesS = [], streaming = False, isLoading = False, streamContent = [], streamEvents = [],
      streamError = False, isCache = False, input = [], streamContentRef = [],
      thoughtProcessRef = [], reflectionEventsRef = [], reflectionContentsRef = [],
      isReflectingRef = False, hasErrorOccurredRef = False, localStorage = Map.empty,
      effects = []\<rparr>"

text \<open>The frames of one response, handled in order of arrival; a throwing handler ends
  the run.\<close>

fun feed :: "submission \<Rightarrow> json option list \<Rightarrow> chat_state \<Rightarrow> js_error option \<times> chat_state" where
  "feed sub [] s = (None, s)"
| "feed sub (e # es) s = (case onmessage sub e s of (None, s') \<Rightarrow> feed sub es s' | (Some err, s') \<Rightarrow> (Some err, s'))"

subsection \<open>A sample exchange\<close>






section \<open>Chat hook: submissions and their streams\<close>

text \<open>
  \<^verbatim>\<open>formatChatData\<close>: the history sent with a request, one pair for each assistant message
  that follows a user message; items without a string role and content are skipped.
\<close>

fun is_string :: "json \<Rightarrow> bool" where
  "is_string (JStr s) = True"
| "is_string v = False"

fun formatChatData_loop :: "json list \<Rightarrow> json \<Rightarrow> json \<Rightarrow> json list \<Rightarrow> json list" where
  "formatChatData_loop [] usr bt result = result"
| "formatChatData_loop (item # items) usr bt result =
     (if \<not> truthy item \<or> \<not> is_string (get_opt item ''role'') \<or> \<not> is_string (get_opt item ''content'')
      then formatChatData_loop items usr bt result
      else if strict_eq (get_opt item ''role'') (JStr ''user'')
      then formatChatData_loop items (get_opt item ''content'') bt result
      else if strict_eq (get_opt item ''role'') (JStr ''assistant'')
      then (let bt' = get_opt item ''content'' in
            formatChatData_loop items JUndefined JUndefined
              (if truthy usr \<and> truthy bt'
               then result @ [JObj [(''user'', usr), (''bot'', bt')]] else result))
      else formatChatData_loop items usr bt result)"

definition formatChatData :: "json list \<Rightarrow> json list" where
  "formatChatData chatArray = formatChatData_loop chatArray JUndefined JUndefined []"

text \<open>
  The hook with its submissions.  Each call of \<^verbatim>\<open>handleSubmit\<close> in streaming mode makes
  two abort controllers: its own, whose signal it hands to the transport, and the one
  inside \<^verbatim>\<open>streamChatRequest\<close>, whose signal is used only when no signal was handed in.
  The function that \<^verbatim>\<open>streamChatRequest\<close> returns, and that the hook keeps in
  \<open>abortConnectionRef\<close> once the stream has ended, aborts the second one.  A transport is
  cancelled when the signal it was given is aborted.
\<close>

record request_body =
  chat_thread_id :: json
  history :: "json list"
  caching_enabled :: bool
  user_query :: string

record orch =
  chat :: chat_state
  subs :: "submission list"
  stream_open :: "nat list"
  aborted_signals :: "nat list"
  aborted_inner :: "nat list"
  abortConnectionRef :: "nat option"
  requests :: "request_body list"

text \<open>What the hook reads from its surroundings when \<^verbatim>\<open>handleSubmit\<close> runs.\<close>

record hook_env =
  env_id :: json
  env_thread_name :: json
  env_publicAgent :: bool
  env_setTransitioningState :: bool
  env_updateLocalThreadWithServerId :: bool

record submit_args =
  arg_question :: "string option"
  arg_regenerating :: bool
  arg_messageIdToRegenerate :: "json option"
  arg_storedThread :: "StoredThread option outcome"

datatype event =
    Submit submit_args
  | Frame nat "json option"
  | Close nat
  | Unmount

text \<open>The thread id sent with the request.  In PUBLIC_AGENT mode the stored thread is read
  first (the argument is the result of that read); a failed read falls back to the sign of
  the id.\<close>

definition id_or_null :: "json \<Rightarrow> json" where
  "id_or_null i = (if nan_less (parseInt (to_str i)) 0 then JNull else num_of (parseInt (to_str i)))"

definition chatThreadId_for :: "hook_env \<Rightarrow> StoredThread option outcome \<Rightarrow> json" where
  "chatThreadId_for env stored =
     (if env_publicAgent env \<and> truthy (env_id env)
      then (case stored of
              Resolved storedThread \<Rightarrow>
                (let sid = (case storedThread of
                              Some t \<Rightarrow> get_opt (JObj (t_metadata t)) ''serverThreadId''
                            | None \<Rightarrow> JUndefined)
                 in if truthy sid then sid
                    else if nan_greater (parseInt (to_str (env_id env))) 0
                    then num_of (parseInt (to_str (env_id env)))
                    else JNull)
            | _ \<Rightarrow> id_or_null (env_id env))
      else id_or_null (env_id env))"

text \<open>
  \<^verbatim>\<open>handleSubmit\<close> in streaming mode, from its first statement to the point where the
  stream is open.  Nothing in it aborts a controller or reads \<open>abortConnectionRef\<close>.
\<close>

definition handleSubmit :: "hook_env \<Rightarrow> submit_args \<Rightarrow> orch \<Rightarrow> orch" where
  "handleSubmit env args s =
     (let c = chat s;
          q = (case arg_question args of Some x \<Rightarrow> if x \<noteq> [] then x else input c | None \<Rightarrow> input c);
          c1 = c\<lparr>localStorage := ((localStorage c)(''query'' \<mapsto> q))(''thread_id'' \<mapsto> to_str (env_id env)),
                 reflectionEventsRef := [], reflectionContentsRef := [], thoughtProcessRef := [],
                 hasErrorOccurredRef := False, isCache := False\<rparr>
      in if (arg_question args = None \<or> arg_question args = Some []) \<and> input c = []
         then s\<lparr>chat := c1\<rparr>
         else
           (let sub = \<lparr>question = arg_question args, regenerating = arg_regenerating args,
                       messageIdToRegenerate = arg_messageIdToRegenerate args,
                       sub_input = input c, sub_messages = messagesS c, sub_streaming = streaming c,
                       url_id = env_id env, thread_name_from_url = env_thread_name env,
                       publicAgent = env_publicAgent env,
                       has_setTransitioningState = env_setTransitioningState env,
                       has_updateLocalThreadWithServerId = env_updateLocalThreadWithServerId env\<rparr>;
                c2 = c1\<lparr>isLoading := True\<rparr>;
                chatHistory =
                  (case arg_messageIdToRegenerate args of
                     Some mid \<Rightarrow>
                       if arg_regenerating args \<and> truthy mid
                       then formatChatData
                              (filter (\<lambda>m. \<not> (strict_eq (get_opt m ''role'') (JStr ''assistant'')
                                               \<and> strict_eq (get_opt m ''id'') mid)) (messagesS c))
                       else formatChatData (messagesS c)
                   | None \<Rightarrow> formatChatData (messagesS c));
                c3 = (if \<not> arg_regenerating args
                      then (let c' = setMessages_append (JObj [(''role'', JStr ''user''), (''content'', JStr q)]) c2
                            in if env_publicAgent env \<and> truthy (env_id env)
                               then emit (SaveMessage (to_str (env_id env)) User (JStr q) [(''query'', JStr q)]) c'
                               else c')
                      else c2);
                c4 = c3\<lparr>streamError := False\<rparr>;
                body = \<lparr>chat_thread_id = chatThreadId_for env (arg_storedThread args),
                        history = chatHistory,
                        caching_enabled = (\<not> arg_regenerating args),
                        user_query = q\<rparr>;
                c5 = c4\<lparr>input := [], streamContent := [], streamContentRef := []\<rparr>;
                k = length (subs s)
            in s\<lparr>chat := c5, subs := subs s @ [sub], stream_open := stream_open s @ [k],
                 requests := requests s @ [body]\<rparr>))"

text \<open>The \<^verbatim>\<open>finally\<close> block of \<^verbatim>\<open>handleSubmit\<close>.\<close>

definition submit_finally :: "submission \<Rightarrow> chat_state \<Rightarrow> chat_state" where
  "submit_finally sub c =
     (let c1 = (if \<not> sub_streaming sub then c\<lparr>isLoading := False\<rparr> else c)
      in c1\<lparr>input := [],
             localStorage := ((localStorage c1)(''query'' := None))(''thread_id'' := None)\<rparr>)"

text \<open>\<^verbatim>\<open>onerror\<close> of the handlers, up to the abort of the submission's controller and the
  rethrow.\<close>

definition onerror :: "chat_state \<Rightarrow> chat_state" where
  "onerror c = (emit (ConsoleError ''Stream error occurred:'') c)
                 \<lparr>streaming := False, streamContent := [], streamContentRef := [],
                  isLoading := False, isCache := False\<rparr>"

text \<open>The \<^verbatim>\<open>catch\<close> block of \<^verbatim>\<open>handleSubmit\<close>.  \<^verbatim>\<open>streamChatRequest\<close> catches what the
  transport throws, so no event of a stream leads here.\<close>

definition submit_catch :: "chat_state \<Rightarrow> chat_state" where
  "submit_catch c = c\<lparr>isLoading := False, streaming := False, streamContent := [],
                       streamContentRef := [], isReflectingRef := False\<rparr>"

text \<open>
  One event of the hook.  A frame is delivered to the handlers of the submission whose
  stream it arrives on, as long as that stream is open.  An exception that escapes
  \<^verbatim>\<open>onmessage\<close> is given by the transport to \<^verbatim>\<open>onerror\<close>, which aborts the controller
  of the submission before it rethrows: the abort ends the stream and settles the
  transport's promise, the rethrown error is dropped, and \<^verbatim>\<open>handleSubmit\<close> goes on as
  after a stream that ended, storing the function returned by \<^verbatim>\<open>streamChatRequest\<close> and
  running \<^verbatim>\<open>finally\<close>.  When the server closes a stream, \<^verbatim>\<open>onclose\<close> runs, the function
  returned by \<^verbatim>\<open>streamChatRequest\<close> is stored and \<^verbatim>\<open>finally\<close> runs.  Unmounting calls the
  stored function.
\<close>

definition step :: "hook_env \<Rightarrow> orch \<Rightarrow> event \<Rightarrow> orch" where
  "step env s ev =
     (case ev of
        Submit args \<Rightarrow> handleSubmit env args s
      | Frame k data \<Rightarrow>
          if k \<in> set (stream_open s) \<and> k < length (subs s)
          then (case onmessage (subs s ! k) data (chat s) of
                  (None, c') \<Rightarrow> s\<lparr>chat := c'\<rparr>
                | (Some err, c') \<Rightarrow>
                    s\<lparr>chat := submit_finally (subs s ! k) (onerror c'),
                      stream_open := removeAll k (stream_open s),
                      aborted_signals := aborted_signals s @ [k],
                      abortConnectionRef := Some k\<rparr>)
          else s
      | Close k \<Rightarrow>
          if k \<in> set (stream_open s) \<and> k < length (subs s)
          then s\<lparr>chat := submit_finally (subs s ! k) (onclose (chat s)),
                 stream_open := removeAll k (stream_open s),
                 aborted_signals := aborted_signals s @ [k],
                 abortConnectionRef := Some k\<rparr>
          else s
      | Unmount \<Rightarrow>
          (case abortConnectionRef s of
             Some k \<Rightarrow> s\<lparr>aborted_inner := aborted_inner s @ [k], abortConnectionRef := None\<rparr>
           | None \<Rightarrow> s))"

fun run :: "hook_env \<Rightarrow> orch \<Rightarrow> event list \<Rightarrow> orch" where
  "run env s [] = s"
| "run env s (ev # evs) = run env (step env s ev) evs"

definition initial_orch :: orch where
  "initial_orch = \<lparr>chat = initial_chat, subs = [], stream_open = [], aborted_signals = [],
                   aborted_inner = [], abortConnectionRef = None, requests = []\<rparr>"

definition local_thread_env :: hook_env where
  "local_thread_env = \<lparr>env_id = JStr ''-5'', env_thread_name = JStr ''New Chat'',
                       env_publicAgent = False, env_setTransitioningState = True,
                       env_updateLocalThreadWithServerId = True\<rparr>"

definition ask :: "string \<Rightarrow> event" where
  "ask q = Submit \<lparr>arg_question = Some q, arg_regenerating = False,
                   arg_messageIdToRegenerate = None, arg_storedThread = Resolved None\<rparr>"

text \<open>The frame of scenario B, and the Enter key pressed on an empty input box: the input
  component calls \<^verbatim>\<open>handleSubmit\<close> without a question.\<close>

definition rate_limited :: json where
  "rate_limited = JObj [(''step'', JStr ''error''), (''message'', JStr ''rate limited'')]"

definition press_enter_on_empty_input :: event where
  "press_enter_on_empty_input =
     Submit \<lparr>arg_question = None, arg_regenerating = False,
             arg_messageIdToRegenerate = None, arg_storedThread = Resolved None\<rparr>"

section \<open>Message actions: votes\<close>

text \<open>
  \<^verbatim>\<open>getThreadMessages\<close> of the session context (PUBLIC_AGENT mode): the messages stored
  under the thread id or, when there are none, under the first thread that matches the id
  by its key or by its metadata.
\<close>

fun starts_with :: "string \<Rightarrow> string \<Rightarrow> bool" where
  "starts_with [] s = True"
| "starts_with (c # cs) [] = False"
| "starts_with (c # cs) (d # ds) = (c = d \<and> starts_with cs ds)"

fun includes_str :: "string \<Rightarrow> string \<Rightarrow> bool" where
  "includes_str [] sub = (sub = [])"
| "includes_str (c # cs) sub = (starts_with sub (c # cs) \<or> includes_str cs sub)"

definition thread_matches :: "string \<Rightarrow> StoredThread \<Rightarrow> bool" where
  "thread_matches tid t =
     (threadId t = tid
      \<or> includes_str (threadId t) tid
      \<or> toString_opt (get_opt (JObj (t_metadata t)) ''serverThreadId'') = Some tid
      \<or> toString_opt (get_opt (JObj (t_metadata t)) ''localThreadId'') = Some tid)"

definition getThreadMessages :: "string \<Rightarrow> world \<Rightarrow> StoredMessage list promise" where
  "getThreadMessages tid w =
     catch_return ''Error getting thread messages:'' []
       (thenP (getMessagesByThreadId tid w) (\<lambda>msgs w1.
          if msgs = []
          then thenP (getAllThreads w1) (\<lambda>allThreads w2.
                 case List.find (thread_matches tid) allThreads of
                   Some matchingThread \<Rightarrow> getMessagesByThreadId (threadId matchingThread) w2
                 | None \<Rightarrow> (Resolved msgs, w2))
          else (Resolved msgs, w1)))"

text \<open>
  The vote handlers of the message actions.  The component reads the message at its index
  in the list (or the message it was given) and normalises the two vote flags to booleans.
\<close>

record vote_ctx =
  has_apiService :: bool
  has_user :: bool
  v_publicAgent :: bool
  chatId :: string
  index :: nat
  message_prop :: json

record vote_state =
  v_messages :: "json list"
  v_world :: world
  remote_calls :: "(string \<times> json) list"
  v_console :: "string list"
  showDeleteDialog :: bool
  ls_message_id :: "string option"

definition props :: "json \<Rightarrow> jobj" where
  "props v = (case v of JObj kvs \<Rightarrow> kvs | _ \<Rightarrow> [])"

definition currentMessage :: "vote_ctx \<Rightarrow> json list \<Rightarrow> json" where
  "currentMessage ctx ms =
     (let at_index = (if index ctx < length ms then ms ! index ctx else JUndefined);
          msg = js_or at_index (message_prop ctx)
      in JObj (spread (props msg)
                 [(''is_upvote'', JBool (strict_eq (get_opt msg ''is_upvote'') (JBool True))),
                  (''is_downvote'', JBool (strict_eq (get_opt msg ''is_downvote'') (JBool True)))]))"

definition js_trim :: "string \<Rightarrow> string" where
  "js_trim s = rev (dropWhile is_js_space (rev (dropWhile is_js_space s)))"

text \<open>
  The lookup of the stored copy of a message: first by the response id kept in the
  metadata, else by role and equal trimmed content.  \<^verbatim>\<open>content.trim()\<close> throws when the
  content of the message in memory is not a string.
\<close>

fun find_stored :: "json \<Rightarrow> StoredMessage list \<Rightarrow> js_error + StoredMessage option" where
  "find_stored cur [] = Inr None"
| "find_stored cur (m # ms) =
     (let metadataId = toString_opt (get_opt (JObj (m_metadata m)) ''id'');
          currentMessageId = toString_opt (get_opt cur ''id'')
      in if str_truthy metadataId \<and> metadataId = currentMessageId then Inr (Some m)
         else if m_role m = Assistant \<and> m_content m \<noteq> [] \<and> truthy (get_opt cur ''content'')
         then (case get_opt cur ''content'' of
                 JStr c \<Rightarrow> if js_trim (m_content m) = js_trim c then Inr (Some m)
                           else find_stored cur ms
               | _ \<Rightarrow> Inl TypeError)
         else find_stored cur ms)"

definition set_votes :: "(string \<times> json) list \<Rightarrow> json \<Rightarrow> json" where
  "set_votes flags msg = JObj (spread (props msg) flags)"

definition persist_vote :: "vote_ctx \<Rightarrow> json \<Rightarrow> (string \<times> json) list \<Rightarrow> vote_state \<Rightarrow> vote_state" where
  "persist_vote ctx cur flags s =
     (case getThreadMessages (chatId ctx) (v_world s) of
        (Resolved threadMessages, w1) \<Rightarrow>
          (case find_stored cur threadMessages of
             Inl err \<Rightarrow> s\<lparr>v_world := console_error ''Error updating message in IndexedDB:'' w1\<rparr>
           | Inr None \<Rightarrow> s\<lparr>v_world := w1\<rparr>
           | Inr (Some storedMessage) \<Rightarrow>
               (case updateMessage (messageId storedMessage)
                       \<lparr>u_content = None,
                        um_metadata = Some (spread (m_metadata storedMessage) flags)\<rparr> w1 of
                  (Rejected e, w2) \<Rightarrow>
                     s\<lparr>v_world := console_error ''Error updating message in IndexedDB:'' w2\<rparr>
                | (r, w2) \<Rightarrow> s\<lparr>v_world := w2\<rparr>))
      | (Rejected e, w1) \<Rightarrow> s\<lparr>v_world := console_error ''Error updating message in IndexedDB:'' w1\<rparr>
      | (Pending, w1) \<Rightarrow> s\<lparr>v_world := w1\<rparr>)"

text \<open>
  The argument \<open>api_result\<close> is what the feedback call of the API service does: it
  resolves with a response, or rejects (\<open>None\<close>).
\<close>

definition handleUpvoteclick :: "vote_ctx \<Rightarrow> json option \<Rightarrow> vote_state \<Rightarrow> vote_state" where
  "handleUpvoteclick ctx api_result s =
     (let cur = currentMessage ctx (v_messages s) in
      if truthy (get_opt cur ''is_upvote'') \<or> \<not> has_apiService ctx then s
      else if \<not> has_user ctx then s
      else
        (let s1 = s\<lparr>remote_calls := remote_calls s @
                       [(''upvote'', num_of (parseInt (to_str (get_opt cur ''id''))))]\<rparr>
         in case api_result of
              None \<Rightarrow> s1\<lparr>v_console := v_console s1 @ [''Failed to record feedback'']\<rparr>
            | Some response \<Rightarrow>
                (let rid = get_opt (get_opt response ''data'') ''id'' in
                 if \<not> truthy rid then s1
                 else
                   (let s2 = s1\<lparr>v_messages :=
                                 map (\<lambda>msg. if strict_eq (get_opt msg ''id'') rid
                                            then set_votes [(''is_upvote'', JBool True),
                                                            (''is_downvote'', JBool False)] msg
                                            else msg) (v_messages s1)\<rparr>
                    in if v_publicAgent ctx \<and> chatId ctx \<noteq> [] \<and> truthy (get_opt cur ''id'')
                       then persist_vote ctx cur [(''is_upvote'', JBool True),
                                                  (''is_downvote'', JBool False)] s2
                       else s2))))"

definition handleDownvoteclick :: "vote_ctx \<Rightarrow> json option \<Rightarrow> vote_state \<Rightarrow> vote_state" where
  "handleDownvoteclick ctx api_result s =
     (let cur = currentMessage ctx (v_messages s) in
      if truthy (get_opt cur ''is_downvote'') \<or> \<not> has_apiService ctx then s
      else if \<not> has_user ctx then s
      else
        (let s1 = s\<lparr>remote_calls := remote_calls s @
                       [(''downvote'', num_of (parseInt (to_str (get_opt cur ''id''))))]\<rparr>
         in case api_result of
              None \<Rightarrow> s1\<lparr>v_console := v_console s1 @ [''Failed to record feedback'']\<rparr>
            | Some response \<Rightarrow>
                (let rid = get_opt (get_opt response ''data'') ''id'' in
                 if \<not> truthy rid then s1
                 else
                   (let s2 = s1\<lparr>ls_message_id := Some (to_str (get_opt cur ''id'')),
                                showDeleteDialog := True\<rparr>;
                        s3 = s2\<lparr>v_messages :=
                                 map (\<lambda>msg. if strict_eq (get_opt msg ''id'') rid
                                            then set_votes [(''is_downvote'', JBool True),
                                                            (''is_upvote'', JBool False)] msg
                                            else msg) (v_messages s2)\<rparr>
                    in if v_publicAgent ctx \<and> chatId ctx \<noteq> [] \<and> truthy (get_opt cur ''id'')
                       then persist_vote ctx cur [(''is_upvote'', JBool False),
                                                  (''is_downvote'', JBool True)] s3
                       else s3))))"

text \<open>A thread that holds the same answer twice, and the list shown for it.\<close>

definition repeated_answer_world :: world where
  "repeated_answer_world =
     (empty_world 100)\<lparr>
        threads := [(''42'', \<lparr>threadId = ''42'', title = ''Capitals'', t_createdAt = 5, updatedAt = 9,
                      messageIds = [''msg_6_a'', ''msg_7_b'', ''msg_8_c'', ''msg_9_d''],
                      t_metadata = [(''serverThreadId'', JNum 42)]\<rparr>)],
        messages := [(''msg_6_a'', \<lparr>messageId = ''msg_6_a'', m_threadId = ''42'', m_role = User,
                         m_content = ''What is the capital of France?'', m_createdAt = 6,
                         m_metadata = []\<rparr>),
                     (''msg_7_b'', \<lparr>messageId = ''msg_7_b'', m_threadId = ''42'', m_role = Assistant,
                         m_content = ''Paris'', m_createdAt = 7,
                         m_metadata = [(''id'', JNum 9), (''is_upvote'', JBool False),
                                       (''is_downvote'', JBool False)]\<rparr>),
                     (''msg_8_c'', \<lparr>messageId = ''msg_8_c'', m_threadId = ''42'', m_role = User,
                         m_content = ''And again?'', m_createdAt = 8, m_metadata = []\<rparr>),
                     (''msg_9_d'', \<lparr>messageId = ''msg_9_d'', m_threadId = ''42'', m_role = Assistant,
                         m_content = ''Paris'', m_createdAt = 9,
                         m_metadata = [(''id'', JNum 11), (''is_upvote'', JBool False),
                                       (''is_downvote'', JBool False)]\<rparr>)]\<rparr>"

definition repeated_answer_votes :: vote_state where
  "repeated_answer_votes =
     \<lparr>v_messages =
        [JObj [(''role'', JStr ''user''), (''content'', JStr ''What is the capital of France?'')],
         JObj [(''role'', JStr ''assistant''), (''content'', JStr ''Paris''), (''id'', JNum 9),
               (''is_upvote'', JBool False), (''is_downvote'', JBool False)],
         JObj [(''role'', JStr ''user''), (''content'', JStr ''And again?'')],
         JObj [(''role'', JStr ''assistant''), (''content'', JStr ''Paris''), (''id'', JNum 11),
               (''is_upvote'', JBool False), (''is_downvote'', JBool False)]],
      v_world = repeated_answer_world, remote_calls = [], v_console = [],
      showDeleteDialog = False, ls_message_id = None\<rparr>"

definition second_answer :: vote_ctx where
  "second_answer = \<lparr>has_apiService = True, has_user = True, v_publicAgent = True,
                    chatId = ''42'', index = 3, message_prop = JUndefined\<rparr>"

definition first_answer :: vote_ctx where
  "first_answer = \<lparr>has_apiService = True, has_user = True, v_publicAgent = True,
                   chatId = ''42'', index = 1, message_prop = JUndefined\<rparr>"


section \<open>Properties of the local store\<close>

lemma map_of_store_put: "map_of (store_put k v kvs) k = Some v"
  by (induction kvs) auto


lemma keys_store_put: "fst ` set (store_put k v kvs) = insert k (fst ` set kvs)"
proof (induction kvs)
  case Nil
  show ?case by simp
next
  case (Cons a kvs)
  obtain k' v' where a: "a = (k', v')" by (cases a)
  show ?case using Cons unfolding a by (simp add: insert_commute)
qed

lemma map_of_key: "map_of kvs k = Some v \<Longrightarrow> k \<in> fst ` set kvs"
  by (force dest: map_of_SomeD)

text \<open>With a working database and a session id in sessionStorage, the session reads and
  the thread-count write succeed.\<close>

lemma getSessionMetadata_ok:
  assumes "\<not> open_fails w" "\<not> request_fails w" "ejento_session_id w = Some sid" "sid \<noteq> []"
  shows "getSessionMetadata w = (Resolved (map_of (sessions w) sid), w)"
  using assms
  by (simp add: getSessionMetadata_def thenP_def catch_return_def openDatabase_def
      generateSessionId_def request_def)

lemma createOrUpdate_count_ok:
  assumes "\<not> open_fails w" "\<not> request_fails w" "ejento_session_id w = Some sid" "sid \<noteq> []"
    "map_of (sessions w) sid = Some s"
  shows "createOrUpdateSessionMetadata (no_update\<lparr>u_threadCount := Some c\<rparr>) w
     = (let s' = \<lparr>sessionId = sid,
                   s_createdAt = or_default (Some (s_createdAt s)) (clock w (ticks w)),
                   lastSyncedAt = or_null (lastSyncedAt s), threadCount = c,
                   lastTokenRefresh = or_null (lastTokenRefresh s)\<rparr>
        in (Resolved s', w\<lparr>ticks := Suc (ticks w), sessions := store_put sid s' (sessions w)\<rparr>))"
  using assms
  by (simp add: createOrUpdateSessionMetadata_def getSessionMetadata_ok thenP_def
      catch_rethrow_def openDatabase_def generateSessionId_def request_def Date_now_def
      no_update_def Let_def)

lemma adjust_threadCount_ok:
  assumes "\<not> open_fails w" "\<not> request_fails w" "ejento_session_id w = Some sid" "sid \<noteq> []"
    "map_of (sessions w) sid = Some s" "guard (threadCount s)"
  shows "adjust_threadCount guard f w
     = (let s' = \<lparr>sessionId = sid,
                   s_createdAt = or_default (Some (s_createdAt s)) (clock w (ticks w)),
                   lastSyncedAt = or_null (lastSyncedAt s), threadCount = f (threadCount s),
                   lastTokenRefresh = or_null (lastTokenRefresh s)\<rparr>
        in (Resolved (), w\<lparr>ticks := Suc (ticks w), sessions := store_put sid s' (sessions w)\<rparr>))"
  using assms
  by (simp add: adjust_threadCount_def getSessionMetadata_ok createOrUpdate_count_ok thenP_def
      Let_def)

text \<open>
  Claim C1 (sign invariant).  The claim asks that a locally created thread, once
  \<^verbatim>\<open>migrateThread\<close> has moved it to a positive server id, carries a non-null
  \<^verbatim>\<open>metadata.serverThreadId\<close>.  The code is run here on that input: a thread made by
  \<^verbatim>\<open>createNewThread\<close> at time 5 (id \<^verbatim>\<open>-5\<close>, metadata \<^verbatim>\<open>serverThreadId: null\<close>) and
  migrated to id \<^verbatim>\<open>42\<close>.  The old metadata is spread last into the new metadata, so its
  \<^verbatim>\<open>serverThreadId: null\<close> wins: the store holds a thread under the positive id 42 whose
  \<^verbatim>\<open>serverThreadId\<close> is null, and no thread under \<^verbatim>\<open>-5\<close>.
\<close>

theorem migrateThread_keeps_null_serverThreadId:
  "(let w1 = snd (createNewThread True None (empty_world 5));
        r = migrateThread ''-5'' ''42'' (Some ''Capitals'') w1;
        w2 = snd r
    in map_option t_metadata (map_of (threads w1) ''-5'')
         = Some [(''localThreadId'', JNum (- 5)), (''serverThreadId'', JNull)]
     \<and> map_option threadId (map_of (threads w2) ''42'') = Some ''42''
     \<and> nan_greater (parseInt ''42'') 0
     \<and> map_option (\<lambda>t. get_opt (JObj (t_metadata t)) ''serverThreadId'') (map_of (threads w2) ''42'')
         = Some JNull
     \<and> map_of (threads w2) ''-5'' = None)"
  by code_simp

lemma adjust_threadCount_no_session:
  assumes "\<not> open_fails w" "\<not> request_fails w" "ejento_session_id w = Some sid" "sid \<noteq> []"
    "map_of (sessions w) sid = None"
  shows "adjust_threadCount guard f w = (Resolved (), w)"
  using assms
  by (simp add: adjust_threadCount_def getSessionMetadata_ok thenP_def)

text \<open>
  Claim C10 (createThread on an existing id) as stated fails in two states the
  application reaches.  In the store a new tab finds (a session record with thread count 0
  beside the two threads \<^verbatim>\<open>-3\<close> and \<^verbatim>\<open>7\<close>), \<^verbatim>\<open>createThread\<close> on the existing id
  \<^verbatim>\<open>7\<close> overwrites the record and raises the count to 1, which does not exceed the two
  thread records.  In the same store without a session record the record is overwritten
  and no count is incremented: no session record exists afterwards either.
\<close>

theorem createThread_existing_id_count_not_above_records:
  "(let w = fresh_tab_world;
        w' = snd (createThread ''7'' ''Again'' None w);
        v = fresh_tab_world\<lparr>sessions := []\<rparr>;
        v' = snd (createThread ''7'' ''Again'' None v)
    in map_option title (map_of (threads w) ''7'') = Some ''Old''
     \<and> map_option title (map_of (threads w') ''7'') = Some ''Again''
     \<and> map fst (threads w') = [''-3'', ''7'']
     \<and> map_option threadCount (map_of (sessions w') ''session_1_a'') = Some 1
     \<and> map_option (\<lambda>s. int (card (fst ` set (threads w'))) < threadCount s)
           (map_of (sessions w') ''session_1_a'') = Some False
     \<and> map_option title (map_of (threads v') ''7'') = Some ''Again''
     \<and> sessions v' = [])"
  by code_simp

text \<open>
  Claim C10 as the code has it.  With IndexedDB working and a non-empty session id held
  in sessionStorage, a call of \<^verbatim>\<open>createThread\<close> with an id that is already in the store
  resolves with the new record without logging, replaces the stored record by it (the new
  title and metadata, no message ids, both timestamps set to now) and adds no record.
  When no session record exists under the session id, none is written and nothing is
  incremented.  When one exists, the detached count update adds one to its thread count,
  so that the count exceeds the number of distinct thread records after the call exactly
  when it was not below that number before the call.
\<close>

theorem createThread_existing_id_overwrites:
  assumes "\<not> open_fails w" and "\<not> request_fails w"
    and "map_of (threads w) tid = Some old"
    and "ejento_session_id w = Some sid" and "sid \<noteq> []"
  shows "(let new = \<lparr>threadId = tid, title = ttl, t_createdAt = clock w (ticks w),
                     updatedAt = clock w (ticks w), messageIds = [],
                     t_metadata = (case md of Some m \<Rightarrow> m | None \<Rightarrow> [])\<rparr>;
              r = createThread tid ttl md w;
              w' = snd r
          in fst r = Resolved new
           \<and> console w' = console w
           \<and> map_of (threads w') tid = Some new
           \<and> fst ` set (threads w') = fst ` set (threads w)
           \<and> (case map_of (sessions w) sid of
                 None \<Rightarrow> sessions w' = sessions w
               | Some s \<Rightarrow>
                   map_option threadCount (map_of (sessions w') sid) = Some (threadCount s + 1)
                   \<and> (int (card (fst ` set (threads w'))) < threadCount s + 1)
                       = (int (card (fst ` set (threads w))) \<le> threadCount s)))"
proof -
  have k: "tid \<in> fst ` set (threads w)"
    using assms(3) by (rule map_of_key)
  let ?new = "\<lparr>threadId = tid, title = ttl, t_createdAt = clock w (ticks w),
                updatedAt = clock w (ticks w), messageIds = [],
                t_metadata = (case md of Some m \<Rightarrow> m | None \<Rightarrow> [])\<rparr>"
  let ?w4 = "w\<lparr>ticks := Suc (ticks w), threads := store_put tid ?new (threads w)\<rparr>"
  have c: "createThread tid ttl md w
      = (Resolved ?new, snd (adjust_threadCount (\<lambda>c. True) (\<lambda>c. c + 1) ?w4))"
    using assms(1,2)
    by (simp add: createThread_def thenP_def catch_rethrow_def openDatabase_def Date_now_def
        request_def detached_def)
  show ?thesis
  proof (cases "map_of (sessions w) sid")
    case None
    have a: "adjust_threadCount (\<lambda>c. True) (\<lambda>c. c + 1) ?w4 = (Resolved (), ?w4)"
      by (rule adjust_threadCount_no_session [where sid = sid]) (use assms None in simp_all)
    show ?thesis
      unfolding Let_def c a using None k
      by (simp add: map_of_store_put keys_store_put insert_absorb)
  next
    case (Some s)
    have a: "adjust_threadCount (\<lambda>c. True) (\<lambda>c. c + 1) ?w4 =
        (let s' = \<lparr>sessionId = sid,
                     s_createdAt = or_default (Some (s_createdAt s)) (clock ?w4 (ticks ?w4)),
                     lastSyncedAt = or_null (lastSyncedAt s), threadCount = threadCount s + 1,
                     lastTokenRefresh = or_null (lastTokenRefresh s)\<rparr>
          in (Resolved (), ?w4\<lparr>ticks := Suc (ticks ?w4), sessions := store_put sid s' (sessions ?w4)\<rparr>))"
      by (rule adjust_threadCount_ok) (use assms Some in simp_all)
    show ?thesis
      unfolding Let_def c a using Some k
      by (auto simp add: map_of_store_put keys_store_put insert_absorb)
  qed
qed

theorem createThread_existing_id_overwrites_witness:
  "(let w = (empty_world 100)\<lparr>
               sessions := [(''session_1_a'', \<lparr>sessionId = ''session_1_a'', s_createdAt = 1,
                               lastSyncedAt = None, threadCount = 1, lastTokenRefresh = None\<rparr>)],
               threads := [(''7'', \<lparr>threadId = ''7'', title = ''Old'', t_createdAt = 1,
                              updatedAt = 2, messageIds = [''m1''], t_metadata = []\<rparr>)]\<rparr>;
        r = createThread ''7'' ''Again'' None w
    in \<not> open_fails w \<and> \<not> request_fails w \<and> map_of (threads w) ''7'' \<noteq> None
     \<and> ejento_session_id w = Some ''session_1_a''
     \<and> map_option threadCount (map_of (sessions w) ''session_1_a'') = Some 1
     \<and> card (fst ` set (threads w)) = 1
     \<and> fst r = Resolved \<lparr>threadId = ''7'', title = ''Again'', t_createdAt = 100,
                          updatedAt = 100, messageIds = [], t_metadata = []\<rparr>
     \<and> console (snd r) = console w
     \<and> map_option messageIds (map_of (threads (snd r)) ''7'') = Some []
     \<and> card (fst ` set (threads (snd r))) = 1
     \<and> map_option threadCount (map_of (sessions (snd r)) ''session_1_a'') = Some 2)"
  using createThread_existing_id_overwrites [of
     "(empty_world 100)\<lparr>
               sessions := [(''session_1_a'', \<lparr>sessionId = ''session_1_a'', s_createdAt = 1,
                               lastSyncedAt = None, threadCount = 1, lastTokenRefresh = None\<rparr>)],
               threads := [(''7'', \<lparr>threadId = ''7'', title = ''Old'', t_createdAt = 1,
                              updatedAt = 2, messageIds = [''m1''], t_metadata = []\<rparr>)]\<rparr>"
     "''7''"
     "\<lparr>threadId = ''7'', title = ''Old'', t_createdAt = 1, updatedAt = 2,
       messageIds = [''m1''], t_metadata = []\<rparr>"
     "''session_1_a''"
     "''Again''" None]
  by (simp add: empty_world_def Let_def)

subsection \<open>Migration\<close>


lemma getMessagesByThreadId_ok:
  "healthy w \<Longrightarrow> getMessagesByThreadId tid w
     = (Resolved (sort_key m_createdAt (filter (\<lambda>m. m_threadId m = tid) (map snd (messages w)))), w)"
  by (simp add: healthy_def getMessagesByThreadId_def thenP_def catch_return_def openDatabase_def request_def)



























subsection \<open>Failures of the underlying database\<close>

text \<open>
  Claim C6 (store error discipline).  The claim asks that a read operation resolves to
  \<^verbatim>\<open>null\<close> or the empty list and logs also when the record request fails after the
  database was opened.  The code is run here on that input, a store whose database opens
  and whose requests fail: each of the five read operations rejects, with the error of its
  \<^verbatim>\<open>onerror\<close> handler, and logs nothing.  (The promise that wraps the request is returned
  from inside \<^verbatim>\<open>try\<close> without \<^verbatim>\<open>await\<close>, so the \<^verbatim>\<open>catch\<close> that returns \<^verbatim>\<open>null\<close>
  never sees its rejection.)  When opening the database fails, the same operations resolve
  to \<^verbatim>\<open>null\<close> or \<^verbatim>\<open>[]\<close> and log, as the claim says.
\<close>

theorem read_operations_reject_on_request_failure:
  "(let w = (empty_world 0)\<lparr>request_fails := True\<rparr>;
        v = (empty_world 0)\<lparr>open_fails := True\<rparr>
    in getSessionMetadata w = (Rejected ''Failed to get session metadata'', w)
     \<and> getThread ''42'' w = (Rejected ''Failed to get thread'', w)
     \<and> getAllThreads w = (Rejected ''Failed to get all threads'', w)
     \<and> getMessage ''msg_6_a'' w = (Rejected ''Failed to get message'', w)
     \<and> getMessagesByThreadId ''42'' w = (Rejected ''Failed to get messages'', w)
     \<and> getThread ''42'' v = (Resolved None, v\<lparr>console := [''Error getting thread:'']\<rparr>)
     \<and> getAllThreads v = (Resolved [], v\<lparr>console := [''Error getting all threads:'']\<rparr>))"
  by (simp add: Let_def empty_world_def getSessionMetadata_def getThread_def getAllThreads_def
      getMessage_def getMessagesByThreadId_def thenP_def catch_return_def openDatabase_def
      generateSessionId_def request_def console_error_def)

text \<open>The write operations hand both kinds of failure to the caller.\<close>

lemma write_operations_propagate_failure:
  assumes "open_fails w \<or> request_fails w"
  shows "\<exists>e. fst (createThread tid ttl md w) = Rejected e"
    and "\<exists>e. fst (updateThread tid tu w) = Rejected e"
    and "\<exists>e. fst (createMessage mid tid r c mm w) = Rejected e"
    and "\<exists>e. fst (updateMessage mid mu w) = Rejected e"
    and "\<exists>e. fst (deleteMessage mid w) = Rejected e"
    and "\<exists>e. fst (deleteThread tid w) = Rejected e"
    and "\<exists>e. fst (createOrUpdateSessionMetadata su w) = Rejected e"
  using assms
  by (auto simp: createThread_def updateThread_def createMessage_def updateMessage_def
      deleteMessage_def deleteThread_def createOrUpdateSessionMetadata_def getThread_def
      getMessage_def getMessagesByThreadId_def getSessionMetadata_def generateSessionId_def
      thenP_def catch_rethrow_def catch_return_def openDatabase_def request_def Date_now_def
      console_error_def Let_def split: option.splits prod.splits)

section \<open>Properties of the identity reconciler\<close>

text \<open>
  Claim C3 (reconciliation gating) as stated fails: the open thread \<^verbatim>\<open>-5\<close> is local, the
  response carries thread id 42, which differs from the active-thread pointer \<^verbatim>\<open>-7\<close> and
  from the URL id \<^verbatim>\<open>-5\<close>, and the function returns true by its third rule.
\<close>

theorem isResponseForCurrentThread_rule3_fires:
  "''42'' \<noteq> ''-7'' \<and> ''42'' \<noteq> ''-5'' \<and> nan_less (parseInt ''-5'') 0
   \<and> isResponseForCurrentThread (Some ''-7'') (Some ''42'') (Some ''-5'') True"
  by (simp add: isResponseForCurrentThread_def null_eq_undef_def str_truthy_def or_zero_def
      nan_less_def parseInt_def is_js_space_def is_digit_in_def digit_val_def digits_value_def)

text \<open>
  Claim C3 as the code has it.  For a response whose thread id differs from the
  active-thread pointer, the function returns true exactly when the pointer equals the URL
  thread id (rule 2), or the open thread is local, the response carries a non-empty thread
  id and the active-thread pointer itself parses to a negative integer (rule 3).
\<close>

theorem isResponseForCurrentThread_gating:
  assumes "\<not> null_eq_undef activeThreadId responseThreadId"
  shows "isResponseForCurrentThread activeThreadId responseThreadId currentThreadId isLocalThread
     = (null_eq_undef activeThreadId currentThreadId
        \<or> (isLocalThread \<and> str_truthy responseThreadId
            \<and> nan_less (parseInt (or_zero activeThreadId)) 0))"
  using assms by (simp add: isResponseForCurrentThread_def)

theorem isResponseForCurrentThread_gating_witness:
  "\<not> null_eq_undef (Some ''7'') (Some ''42'')
   \<and> isResponseForCurrentThread (Some ''7'') (Some ''42'') (Some ''-5'') True = False"
  using isResponseForCurrentThread_gating [of "Some ''7''" "Some ''42''" "Some ''-5''" True]
  by (simp add: null_eq_undef_def str_truthy_def or_zero_def
      nan_less_def parseInt_def is_js_space_def is_digit_in_def digit_val_def digits_value_def)

section \<open>Properties of the stream handler\<close>

lemma loose_eq_lit_unique: "loose_eq_lit v a \<Longrightarrow> a \<noteq> b \<Longrightarrow> \<not> loose_eq_lit v b"
  by (cases v) auto

lemma loose_eq_lit_not_assistant:
  "loose_eq_lit v a \<Longrightarrow> a \<noteq> ''assistant_stream'' \<Longrightarrow> \<not> strict_eq v (JStr ''assistant_stream'')"
  by (cases v) auto

lemma poisoned_ignores: "hasErrorOccurredRef s \<Longrightarrow> onmessage sub ev s = (None, s)"
  by (simp add: onmessage_def)

lemma poisoned_feed: "hasErrorOccurredRef s \<Longrightarrow> feed sub evs s = (None, s)"
  by (induction evs) (simp_all add: poisoned_ignores)

lemma onmessage_error_frame:
  assumes "\<not> hasErrorOccurredRef s" and "loose_eq_lit (get_opt p ''step'') ''error''"
  shows "onmessage sub (Some p) s
     = (None, s\<lparr>hasErrorOccurredRef := True,
                 messagesS := messagesS s @ [error_frame_message sub p],
                 streaming := False, isLoading := False, streamContentRef := []\<rparr>)"
proof -
  note u = loose_eq_lit_unique [OF assms(2)]
  have "\<not> loose_eq_lit (get_opt p ''step'') ''end''"
    "\<not> loose_eq_lit (get_opt p ''step'') ''tools_stream''"
    "\<not> loose_eq_lit (get_opt p ''step'') ''reflection_end''"
    "\<not> loose_eq_lit (get_opt p ''step'') ''reflection_skip''"
    by (rule u, simp)+
  then show ?thesis using assms
    by (simp add: onmessage_def Let_def setMessages_append_def)
qed

text \<open>
  On a frame whose step is \<^verbatim>\<open>error\<close>, arriving while the flag is not set, the handler
  appends one assistant message whose content is the error marker followed by the frame's
  error details or, when these are absent or falsy, by its message, and sets the flag;
  frames handled while the flag is set, parseable or not, leave the whole state as it is.
\<close>

lemma error_frame_appends_and_sets_flag:
  assumes "\<not> hasErrorOccurredRef s" and "loose_eq_lit (get_opt p ''step'') ''error''"
  shows "(let r = onmessage sub (Some p) s; s' = snd r; m = last (messagesS s');
              details = get_opt (get_opt (get_opt p ''output'') ''error'') ''details''
          in fst r = None
           \<and> messagesS s' = messagesS s @ [m]
           \<and> get_opt m ''role'' = JStr ''assistant''
           \<and> get_opt m ''content'' = JStr (''error:: '' @ (if truthy details then to_str details
                                                            else to_str (get_opt p ''message'')))
           \<and> hasErrorOccurredRef s'
           \<and> (\<forall>later. feed sub later s' = (None, s')))"
  using assms
  by (simp add: onmessage_error_frame Let_def poisoned_feed error_frame_message_def js_or_def)

text \<open>
  Claim C7 (error-frame poisoning).  The claim asks that, once a frame with step
  \<^verbatim>\<open>error\<close> has arrived, every later frame of the same response is discarded.  The code
  is run here on that input: a question is submitted on the thread \<^verbatim>\<open>-5\<close>, the frame
  \<^verbatim>\<open>error\<close> with the message \<^verbatim>\<open>rate limited\<close> arrives on its stream, Enter is pressed on
  the empty input box, and a further frame (\<^verbatim>\<open>assistant_stream\<close> with the delta
  \<^verbatim>\<open>LATE\<close>) arrives on the same stream.  The error frame appends the one error message,
  sets the flag and leaves the stream open.  \<^verbatim>\<open>handleSubmit\<close> clears the flag, as its
  reset "for new request" stands before the check for an empty input, and returns
  without making a request.  The late frame of the failed response is then handled: its
  delta is in the answer accumulator and in the text shown.
\<close>

theorem frame_after_error_frame_is_handled:
  "(let q = ''What is the capital of France?'';
        late = JObj [(''step'', JStr ''assistant_stream''), (''delta'', JStr ''LATE'')];
        s1 = run local_thread_env initial_orch [ask q, Frame 0 (Some rate_limited)];
        s2 = step local_thread_env s1 press_enter_on_empty_input;
        s3 = step local_thread_env s2 (Frame 0 (Some late));
        shown = map (\<lambda>m. (get_opt m ''role'', get_opt m ''content''))
    in hasErrorOccurredRef (chat s1)
     \<and> shown (messagesS (chat s1)) = [(JStr ''user'', JStr q), (JStr ''assistant'', JStr ''error:: rate limited'')]
     \<and> streamContentRef (chat s1) = [] \<and> streamContent (chat s1) = []
     \<and> stream_open s1 = [0] \<and> length (requests s1) = 1
     \<and> input (chat s1) = []
     \<and> stream_open s2 = [0] \<and> length (requests s2) = 1 \<and> length (subs s2) = 1
     \<and> messagesS (chat s2) = messagesS (chat s1)
     \<and> \<not> hasErrorOccurredRef (chat s2)
     \<and> streamContentRef (chat s3) = ''LATE'' \<and> streamContent (chat s3) = ''LATE'')"
  by code_simp















section \<open>Properties of the vote handlers\<close>

lemma map_of_obj_set: "map_of (obj_set k v kvs) k' = (if k' = k then Some v else map_of kvs k')"
  by (induction kvs) auto

lemma get_opt_spread2:
  "get_opt (JObj (spread kvs [(a, x), (b, y)])) k
     = (if k = b then y else if k = a then x else get_opt (JObj kvs) k)"
  by (simp add: map_of_obj_set)

lemma strict_eq_true:
  "strict_eq (case map_of kvs k of None \<Rightarrow> JUndefined | Some v \<Rightarrow> v) (JBool True)
     = (map_of kvs k = Some (JBool True))"
proof (cases "map_of kvs k")
  case None
  then show ?thesis by simp
next
  case (Some v)
  then show ?thesis by (cases v) auto
qed

lemma strict_eq_truthy: "strict_eq a b \<Longrightarrow> truthy b \<Longrightarrow> truthy a"
  by (cases a; cases b) auto

lemma currentMessage_at:
  assumes "index ctx < length ms" "ms ! index ctx = JObj kvs"
  shows "get_opt (currentMessage ctx ms) ''is_upvote'' = JBool (map_of kvs ''is_upvote'' = Some (JBool True))"
    and "get_opt (currentMessage ctx ms) ''is_downvote'' = JBool (map_of kvs ''is_downvote'' = Some (JBool True))"
    and "get_opt (currentMessage ctx ms) ''id'' = get_opt (JObj kvs) ''id''"
  using assms
  by (simp_all add: currentMessage_def Let_def js_or_def props_def map_of_obj_set strict_eq_true)

lemma persist_vote_messages: "v_messages (persist_vote ctx cur flags s) = v_messages s"
  by (simp add: persist_vote_def split: prod.splits outcome.splits sum.splits option.splits)

lemma persist_vote_others:
  "remote_calls (persist_vote ctx cur flags s) = remote_calls s"
  by (simp add: persist_vote_def split: prod.splits outcome.splits sum.splits option.splits)

lemma upvote_step:
  assumes "has_apiService ctx" "has_user ctx"
    and "index ctx < length (v_messages s)" "v_messages s ! index ctx = JObj kvs"
    and "map_of kvs ''is_upvote'' \<noteq> Some (JBool True)"
    and "strict_eq (get_opt (JObj kvs) ''id'') (get_opt (get_opt r ''data'') ''id'')"
    and "truthy (get_opt (get_opt r ''data'') ''id'')"
  shows "v_messages (handleUpvoteclick ctx (Some r) s) ! index ctx
           = JObj (spread kvs [(''is_upvote'', JBool True), (''is_downvote'', JBool False)])"
    and "length (v_messages (handleUpvoteclick ctx (Some r) s)) = length (v_messages s)"
  using assms
  by (simp_all add: handleUpvoteclick_def Let_def currentMessage_at persist_vote_messages
      set_votes_def props_def del: spread.simps)

lemma downvote_step:
  assumes "has_apiService ctx" "has_user ctx"
    and "index ctx < length (v_messages s)" "v_messages s ! index ctx = JObj kvs"
    and "map_of kvs ''is_downvote'' \<noteq> Some (JBool True)"
    and "strict_eq (get_opt (JObj kvs) ''id'') (get_opt (get_opt r ''data'') ''id'')"
    and "truthy (get_opt (get_opt r ''data'') ''id'')"
  shows "v_messages (handleDownvoteclick ctx (Some r) s) ! index ctx
           = JObj (spread kvs [(''is_downvote'', JBool True), (''is_upvote'', JBool False)])"
    and "length (v_messages (handleDownvoteclick ctx (Some r) s)) = length (v_messages s)"
  using assms
  by (simp_all add: handleDownvoteclick_def Let_def currentMessage_at persist_vote_messages
      set_votes_def props_def del: spread.simps)

lemma vote_noop:
  assumes "index ctx < length (v_messages s)" "v_messages s ! index ctx = JObj kvs"
  shows "map_of kvs ''is_upvote'' = Some (JBool True) \<Longrightarrow> handleUpvoteclick ctx r s = s"
    and "map_of kvs ''is_downvote'' = Some (JBool True) \<Longrightarrow> handleDownvoteclick ctx r s = s"
  using assms
  by (simp_all add: handleUpvoteclick_def handleDownvoteclick_def Let_def currentMessage_at)

lemma getMessage_ok: "healthy w \<Longrightarrow> getMessage mid w = (Resolved (map_of (messages w) mid), w)"
  by (simp add: healthy_def getMessage_def thenP_def catch_return_def openDatabase_def request_def)

lemma updateMessage_ok:
  assumes "healthy w" "map_of (messages w) mid = Some ex"
  shows "updateMessage mid updates w
     = (let updated = ex\<lparr>m_content := (case u_content updates of Some c \<Rightarrow> c | None \<Rightarrow> m_content ex),
                          m_metadata := (case um_metadata updates of Some m \<Rightarrow> m | None \<Rightarrow> m_metadata ex)\<rparr>
        in (Resolved updated, w\<lparr>messages := store_put (messageId ex) updated (messages w)\<rparr>))"
  using assms
  by (simp add: updateMessage_def getMessage_ok thenP_def catch_rethrow_def openDatabase_def
      request_def healthy_def Let_def)

lemma getAllThreads_keeps: "healthy w \<Longrightarrow> snd (getAllThreads w) = w \<and> (\<exists>ts. fst (getAllThreads w) = Resolved ts)"
  by (simp add: healthy_def getAllThreads_def thenP_def catch_return_def openDatabase_def request_def)

lemma getThreadMessages_keeps: "healthy w \<Longrightarrow> snd (getThreadMessages tid w) = w"
proof -
  assume h: "healthy w"
  obtain ts where a: "getAllThreads w = (Resolved ts, w)"
    using getAllThreads_keeps [OF h] by (cases "getAllThreads w") auto
  show ?thesis
    by (simp add: getThreadMessages_def getMessagesByThreadId_ok [OF h] a thenP_def catch_return_def
        split: option.splits)
qed

lemma downvote_persists:
  assumes "has_apiService ctx" "has_user ctx"
    and "index ctx < length (v_messages t)" "v_messages t ! index ctx = JObj kvs"
    and "map_of kvs ''is_downvote'' \<noteq> Some (JBool True)"
    and "strict_eq (get_opt (JObj kvs) ''id'') (get_opt (get_opt r ''data'') ''id'')"
    and "truthy (get_opt (get_opt r ''data'') ''id'')"
    and "v_publicAgent ctx" "chatId ctx \<noteq> []" "healthy (v_world t)"
    and "fst (getThreadMessages (chatId ctx) (v_world t)) = Resolved tm"
    and "find_stored (currentMessage ctx (v_messages t)) tm = Inr (Some sel)"
    and "map_of (messages (v_world t)) (messageId sel) = Some sel"
  shows "map_option m_metadata (map_of (messages (v_world (handleDownvoteclick ctx (Some r) t))) (messageId sel))
     = Some (spread (m_metadata sel) [(''is_upvote'', JBool False), (''is_downvote'', JBool True)])"
proof -
  have g: "getThreadMessages (chatId ctx) (v_world t) = (Resolved tm, v_world t)"
    using assms(11) getThreadMessages_keeps [OF assms(10), of "chatId ctx"]
    by (cases "getThreadMessages (chatId ctx) (v_world t)") auto
  have tid: "truthy (get_opt (JObj kvs) ''id'')"
    using assms(6,7) by (rule strict_eq_truthy)
  define flags where "flags = [(''is_upvote'', JBool False), (''is_downvote'', JBool True)]"
  define cur where "cur = currentMessage ctx (v_messages t)"
  have p: "\<And>u. v_world u = v_world t \<Longrightarrow>
      messages (v_world (persist_vote ctx cur flags u))
        = store_put (messageId sel) (sel\<lparr>m_metadata := spread (m_metadata sel) flags\<rparr>) (messages (v_world t))"
    using assms(12,13) assms(10)
    by (simp add: persist_vote_def g cur_def updateMessage_ok [OF assms(10) assms(13)] Let_def
        del: spread.simps)
  have cf: "get_opt cur ''is_downvote'' = JBool False" "truthy (get_opt cur ''id'')"
    unfolding cur_def using assms(3,4,5) tid by (simp_all add: currentMessage_at)
  have "messages (v_world (handleDownvoteclick ctx (Some r) t))
        = store_put (messageId sel) (sel\<lparr>m_metadata := spread (m_metadata sel) flags\<rparr>) (messages (v_world t))"
    using assms(1,2,7,8,9)
    by (simp add: handleDownvoteclick_def Let_def cur_def [symmetric] cf
        flags_def [symmetric] p del: spread.simps)
  then show ?thesis
    by (simp add: map_of_store_put flags_def del: spread.simps)
qed

text \<open>
  What holds of the two handlers.  An upvote and then a downvote on the message at the
  component's index, each remote call resolving with the id of that message, with the two
  flags not both set before: the message in memory ends with \<open>is_upvote\<close> false and
  \<open>is_downvote\<close> true; a further vote in the direction just recorded changes nothing and
  makes no remote call (the state, which holds the list of remote calls, is the same);
  and in PUBLIC_AGENT mode with IndexedDB working, the stored message that the lookup
  returns gets the same two flags.
\<close>

lemma votes_in_memory_and_selected_copy:
  assumes api: "has_apiService ctx" and usr: "has_user ctx"
    and len: "index ctx < length (v_messages s)" and obj: "v_messages s ! index ctx = JObj kvs"
    and nb: "map_of kvs ''is_upvote'' \<noteq> Some (JBool True) \<or> map_of kvs ''is_downvote'' \<noteq> Some (JBool True)"
    and u1: "strict_eq (get_opt (JObj kvs) ''id'') (get_opt (get_opt up_response ''data'') ''id'')"
    and u2: "truthy (get_opt (get_opt up_response ''data'') ''id'')"
    and d1: "strict_eq (get_opt (JObj kvs) ''id'') (get_opt (get_opt down_response ''data'') ''id'')"
    and d2: "truthy (get_opt (get_opt down_response ''data'') ''id'')"
  shows "(let s1 = handleUpvoteclick ctx (Some up_response) s;
              s2 = handleDownvoteclick ctx (Some down_response) s1;
              m = v_messages s2 ! index ctx
          in get_opt m ''is_upvote'' = JBool False \<and> get_opt m ''is_downvote'' = JBool True
           \<and> (\<forall>r. handleUpvoteclick ctx r s1 = s1)
           \<and> (\<forall>r. handleDownvoteclick ctx r s2 = s2)
           \<and> (v_publicAgent ctx \<and> chatId ctx \<noteq> [] \<and> healthy (v_world s1)
                \<and> fst (getThreadMessages (chatId ctx) (v_world s1)) = Resolved tm
                \<and> find_stored (currentMessage ctx (v_messages s1)) tm = Inr (Some sel)
                \<and> map_of (messages (v_world s1)) (messageId sel) = Some sel
               \<longrightarrow> map_option (\<lambda>x. (get_opt (JObj (m_metadata x)) ''is_upvote'',
                                     get_opt (JObj (m_metadata x)) ''is_downvote''))
                      (map_of (messages (v_world s2)) (messageId sel))
                    = Some (JBool False, JBool True)))"
proof -
  define s1 where "s1 = handleUpvoteclick ctx (Some up_response) s"
  define s2 where "s2 = handleDownvoteclick ctx (Some down_response) s1"
  have "\<exists>kvs1. index ctx < length (v_messages s1) \<and> v_messages s1 ! index ctx = JObj kvs1
      \<and> map_of kvs1 ''is_upvote'' = Some (JBool True)
      \<and> map_of kvs1 ''is_downvote'' \<noteq> Some (JBool True)
      \<and> get_opt (JObj kvs1) ''id'' = get_opt (JObj kvs) ''id''"
  proof (cases "map_of kvs ''is_upvote'' = Some (JBool True)")
    case True
    then have "s1 = s" unfolding s1_def using vote_noop(1) [OF len obj] by simp
    then show ?thesis using len obj True nb by auto
  next
    case False
    note st = upvote_step [OF api usr len obj False u1 u2]
    show ?thesis
      apply (rule exI [of _ "spread kvs [(''is_upvote'', JBool True), (''is_downvote'', JBool False)]"])
      unfolding s1_def using st len by (simp add: map_of_obj_set)
  qed
  then obtain kvs1 where len1: "index ctx < length (v_messages s1)"
    and obj1: "v_messages s1 ! index ctx = JObj kvs1"
    and up1: "map_of kvs1 ''is_upvote'' = Some (JBool True)"
    and dn1: "map_of kvs1 ''is_downvote'' \<noteq> Some (JBool True)"
    and id1: "get_opt (JObj kvs1) ''id'' = get_opt (JObj kvs) ''id''"
    by blast
  have d1': "strict_eq (get_opt (JObj kvs1) ''id'') (get_opt (get_opt down_response ''data'') ''id'')"
    unfolding id1 by (rule d1)
  note st2 = downvote_step [OF api usr len1 obj1 dn1 d1' d2]
  have m2: "v_messages s2 ! index ctx
      = JObj (spread kvs1 [(''is_downvote'', JBool True), (''is_upvote'', JBool False)])"
    and len2: "index ctx < length (v_messages s2)"
    unfolding s2_def using st2 len1 by simp_all
  have f: "get_opt (v_messages s2 ! index ctx) ''is_upvote'' = JBool False"
    "get_opt (v_messages s2 ! index ctx) ''is_downvote'' = JBool True"
    unfolding m2 by (simp_all add: map_of_obj_set)
  have i1: "handleUpvoteclick ctx r s1 = s1" for r
    using vote_noop(1) [OF len1 obj1] up1 by simp
  have i2: "handleDownvoteclick ctx r s2 = s2" for r
    using vote_noop(2) [OF len2 m2] by (simp add: map_of_obj_set)
  have st: "map_option (\<lambda>x. (get_opt (JObj (m_metadata x)) ''is_upvote'',
                                     get_opt (JObj (m_metadata x)) ''is_downvote''))
                      (map_of (messages (v_world s2)) (messageId sel))
                    = Some (JBool False, JBool True)"
    if "v_publicAgent ctx" "chatId ctx \<noteq> []" "healthy (v_world s1)"
      "fst (getThreadMessages (chatId ctx) (v_world s1)) = Resolved tm"
      "find_stored (currentMessage ctx (v_messages s1)) tm = Inr (Some sel)"
      "map_of (messages (v_world s1)) (messageId sel) = Some sel"
  proof -
    note p = downvote_persists [OF api usr len1 obj1 dn1 d1' d2 that]
    obtain x where x: "map_of (messages (v_world s2)) (messageId sel) = Some x"
      and mx: "m_metadata x = spread (m_metadata sel) [(''is_upvote'', JBool False), (''is_downvote'', JBool True)]"
      using p unfolding s2_def [symmetric] by (cases "map_of (messages (v_world s2)) (messageId sel)") auto
    show ?thesis unfolding x by (simp add: mx map_of_obj_set)
  qed
  show ?thesis
    unfolding Let_def s1_def [symmetric] s2_def [symmetric]
    using f i1 i2 st by blast
qed

lemma votes_on_first_answer:
  "(let r = JObj [(''data'', JObj [(''id'', JNum 9)])];
        s1 = handleUpvoteclick first_answer (Some r) repeated_answer_votes;
        s2 = handleDownvoteclick first_answer (Some r) s1
    in has_apiService first_answer \<and> has_user first_answer
     \<and> index first_answer < length (v_messages repeated_answer_votes)
     \<and> get_opt (v_messages repeated_answer_votes ! index first_answer) ''id'' = JNum 9
     \<and> healthy (v_world s1)
     \<and> get_opt (v_messages s2 ! index first_answer) ''is_upvote'' = JBool False
     \<and> get_opt (v_messages s2 ! index first_answer) ''is_downvote'' = JBool True
     \<and> handleDownvoteclick first_answer (Some r) s2 = s2
     \<and> map_option (\<lambda>x. (get_opt (JObj (m_metadata x)) ''is_upvote'',
                          get_opt (JObj (m_metadata x)) ''is_downvote''))
           (map_of (messages (v_world s2)) ''msg_7_b'')
         = Some (JBool False, JBool True))"
proof -
  let ?r = "JObj [(''data'', JObj [(''id'', JNum 9)])]"
  let ?kvs = "[(''role'', JStr ''assistant''), (''content'', JStr ''Paris''), (''id'', JNum 9),
               (''is_upvote'', JBool False), (''is_downvote'', JBool False)]"
  let ?s1 = "handleUpvoteclick first_answer (Some ?r) repeated_answer_votes"
  let ?s2 = "handleDownvoteclick first_answer (Some ?r) ?s1"
  let ?sel = "\<lparr>messageId = ''msg_7_b'', m_threadId = ''42'', m_role = Assistant,
               m_content = ''Paris'', m_createdAt = 7,
               m_metadata = [(''id'', JNum 9), (''is_upvote'', JBool True),
                             (''is_downvote'', JBool False)]\<rparr>"
  let ?tm = "[\<lparr>messageId = ''msg_6_a'', m_threadId = ''42'', m_role = User,
                m_content = ''What is the capital of France?'', m_createdAt = 6, m_metadata = []\<rparr>,
              ?sel,
              \<lparr>messageId = ''msg_8_c'', m_threadId = ''42'', m_role = User,
                m_content = ''And again?'', m_createdAt = 8, m_metadata = []\<rparr>,
              \<lparr>messageId = ''msg_9_d'', m_threadId = ''42'', m_role = Assistant,
                m_content = ''Paris'', m_createdAt = 9,
                m_metadata = [(''id'', JNum 11), (''is_upvote'', JBool False),
                              (''is_downvote'', JBool False)]\<rparr>]"
  have api: "has_apiService first_answer" and usr: "has_user first_answer"
    and pa: "v_publicAgent first_answer" and ci: "chatId first_answer \<noteq> []"
    by (simp_all add: first_answer_def)
  have len: "index first_answer < length (v_messages repeated_answer_votes)"
    by (simp add: first_answer_def repeated_answer_votes_def)
  have obj: "v_messages repeated_answer_votes ! index first_answer = JObj ?kvs"
    by (simp add: first_answer_def repeated_answer_votes_def)
  have nb: "map_of ?kvs ''is_upvote'' \<noteq> Some (JBool True) \<or> map_of ?kvs ''is_downvote'' \<noteq> Some (JBool True)"
    by simp
  have u1: "strict_eq (get_opt (JObj ?kvs) ''id'') (get_opt (get_opt ?r ''data'') ''id'')" by simp
  have u2: "truthy (get_opt (get_opt ?r ''data'') ''id'')" by simp
  have h1: "healthy (v_world ?s1)" by code_simp
  have g1: "fst (getThreadMessages (chatId first_answer) (v_world ?s1)) = Resolved ?tm" by code_simp
  have f1: "find_stored (currentMessage first_answer (v_messages ?s1)) ?tm = Inr (Some ?sel)" by code_simp
  have m1: "map_of (messages (v_world ?s1)) (messageId ?sel) = Some ?sel" by code_simp
  note t = votes_in_memory_and_selected_copy [OF api usr len obj nb u1 u2 u1 u2, of ?tm ?sel,
      unfolded Let_def]
  from t have a: "get_opt (v_messages ?s2 ! index first_answer) ''is_upvote'' = JBool False"
    and b: "get_opt (v_messages ?s2 ! index first_answer) ''is_downvote'' = JBool True"
    and c: "handleDownvoteclick first_answer (Some ?r) ?s2 = ?s2"
    by blast+
  from t pa ci h1 g1 f1 m1
  have d: "map_option (\<lambda>x. (get_opt (JObj (m_metadata x)) ''is_upvote'',
                          get_opt (JObj (m_metadata x)) ''is_downvote''))
           (map_of (messages (v_world ?s2)) (messageId ?sel))
         = Some (JBool False, JBool True)"
    by blast
  have i: "get_opt (v_messages repeated_answer_votes ! index first_answer) ''id'' = JNum 9"
    unfolding obj by simp
  have k: "messageId ?sel = ''msg_7_b''" by simp
  show ?thesis
    unfolding Let_def using api usr len i h1 a b c d [unfolded k] by blast
qed

text \<open>
  Claim C9 (vote exclusivity and idempotence).  The claim asks that after an upvote
  followed by a downvote exactly one of the two flags is set, also in the stored metadata
  of the voted message.  The code is run here on a thread that holds the same answer
  twice, both copies stored with their response ids (9 and 11); the two votes are cast on
  the second answer and the remote calls resolve with its id 11.  The lookup tests each
  stored message for the id and, at once, for equal content (a test that the code
  reserves, by its comment, for messages stored without a response id), so it returns the
  stored copy of the first answer before it has seen the copy that carries id 11.  Both
  votes are written there: the stored copy of the voted message keeps both flags false,
  and the stored copy of the first answer shows a downvote that was not cast on it.
\<close>

theorem vote_on_repeated_answer_misses_stored_copy:
  "(let r = Some (JObj [(''data'', JObj [(''id'', JNum 11)])]);
        s2 = handleDownvoteclick second_answer r (handleUpvoteclick second_answer r repeated_answer_votes)
    in remote_calls s2 = [(''upvote'', JNum 11), (''downvote'', JNum 11)]
     \<and> get_opt (v_messages s2 ! 3) ''id'' = JNum 11
     \<and> get_opt (v_messages s2 ! 3) ''is_downvote'' = JBool True
     \<and> map_option m_metadata (map_of (messages (v_world s2)) ''msg_9_d'')
         = Some [(''id'', JNum 11), (''is_upvote'', JBool False), (''is_downvote'', JBool False)]
     \<and> map_option m_metadata (map_of (messages (v_world s2)) ''msg_7_b'')
         = Some [(''id'', JNum 9), (''is_upvote'', JBool False), (''is_downvote'', JBool True)])"
  by code_simp

section \<open>Properties of submissions and streams\<close>

lemma handleSubmit_keeps_cancel:
  "aborted_inner (handleSubmit env a t) = aborted_inner t
   \<and> abortConnectionRef (handleSubmit env a t) = abortConnectionRef t
   \<and> aborted_signals (handleSubmit env a t) = aborted_signals t"
  by (simp add: handleSubmit_def Let_def)

lemma cancel_function_use:
  "(aborted_inner (step env t ev) \<noteq> aborted_inner t \<longrightarrow> ev = Unmount)
   \<and> (abortConnectionRef (step env t ev) = Some k \<and> abortConnectionRef t \<noteq> Some k
        \<longrightarrow> k \<in> set (stream_open t) \<and> k \<notin> set (stream_open (step env t ev)))"
proof (cases ev)
  case (Submit a)
  then show ?thesis by (simp add: step_def handleSubmit_keeps_cancel)
next
  case (Frame j d)
  then show ?thesis
    by (cases "onmessage (subs t ! j) d (chat t)") (auto simp: step_def split: option.splits)
next
  case (Close j)
  then show ?thesis by (auto simp: step_def)
next
  case Unmount
  then show ?thesis by (auto simp: step_def split: option.splits)
qed

text \<open>
  Claim C5 (single active stream) as stated fails.  Two questions are submitted on the
  local thread \<^verbatim>\<open>-5\<close>, the second while the stream of the first is open, and then a
  frame arrives on the first stream: both streams are open, no signal was aborted, and the
  late frame was handled (its delta is in the answer accumulator).
\<close>

theorem second_submission_leaves_first_stream_open:
  "(let s = run local_thread_env initial_orch [ask ''What is the capital of France?'', ask ''And of Spain?'',
            Frame 0 (Some (JObj [(''step'', JStr ''assistant_stream''), (''delta'', JStr ''Paris'')]))]
    in stream_open s = [0, 1] \<and> aborted_signals s = [] \<and> aborted_inner s = []
     \<and> streamContentRef (chat s) = ''Paris'')"
  by code_simp

text \<open>
  Claim C5 as the code has it.  A submission that passes the empty-input check aborts no
  controller and does not touch the stored cancel function; it opens one more stream next
  to those already open, and a frame that then arrives on an earlier open stream is handled
  by the handlers of that earlier submission.  At every event of the hook, the cancel
  function of a submission is stored only when the stream of that submission has just
  ended, and a stored cancel function is called only by the unmount cleanup.
\<close>

theorem submit_cancels_nothing:
  assumes "(arg_question args \<noteq> None \<and> arg_question args \<noteq> Some []) \<or> input (chat s) \<noteq> []"
  shows "(let s' = step env s (Submit args)
          in aborted_signals s' = aborted_signals s
           \<and> aborted_inner s' = aborted_inner s
           \<and> abortConnectionRef s' = abortConnectionRef s
           \<and> stream_open s' = stream_open s @ [length (subs s)]
           \<and> (\<forall>k data c'. k \<in> set (stream_open s) \<and> k < length (subs s)
                  \<and> onmessage (subs s ! k) data (chat s') = (None, c')
                 \<longrightarrow> chat (step env s' (Frame k data)) = c'))
       \<and> (\<forall>t ev k. (abortConnectionRef (step env t ev) = Some k \<and> abortConnectionRef t \<noteq> Some k
                      \<longrightarrow> k \<in> set (stream_open t) \<and> k \<notin> set (stream_open (step env t ev)))
                  \<and> (aborted_inner (step env t ev) \<noteq> aborted_inner t \<longrightarrow> ev = Unmount))"
proof -
  have a: "(let s' = step env s (Submit args)
          in aborted_signals s' = aborted_signals s
           \<and> aborted_inner s' = aborted_inner s
           \<and> abortConnectionRef s' = abortConnectionRef s
           \<and> stream_open s' = stream_open s @ [length (subs s)]
           \<and> (\<forall>k data c'. k \<in> set (stream_open s) \<and> k < length (subs s)
                  \<and> onmessage (subs s ! k) data (chat s') = (None, c')
                 \<longrightarrow> chat (step env s' (Frame k data)) = c'))"
    using assms
    by (auto simp: step_def handleSubmit_def Let_def nth_append)
  show ?thesis using a cancel_function_use by blast
qed

theorem submit_cancels_nothing_witness:
  "(let a = \<lparr>arg_question = Some ''And of Spain?'', arg_regenerating = False,
             arg_messageIdToRegenerate = None, arg_storedThread = Resolved None\<rparr>;
        d = Some (JObj [(''step'', JStr ''assistant_stream''), (''delta'', JStr ''Paris'')]);
        s = step local_thread_env initial_orch (ask ''What is the capital of France?'');
        s' = step local_thread_env s (Submit a)
    in arg_question a \<noteq> None \<and> arg_question a \<noteq> Some []
     \<and> stream_open s = [0] \<and> 0 < length (subs s)
     \<and> fst (onmessage (subs s ! 0) d (chat s')) = None
     \<and> stream_open s' = [0, 1]
     \<and> aborted_signals s' = [] \<and> aborted_inner s' = [] \<and> abortConnectionRef s' = None
     \<and> streamContentRef (chat (step local_thread_env s' (Frame 0 d))) = ''Paris''
     \<and> abortConnectionRef (step local_thread_env s' (Close 0)) = Some 0
     \<and> 0 \<notin> set (stream_open (step local_thread_env s' (Close 0))))"
proof -
  let ?a = "\<lparr>arg_question = Some ''And of Spain?'', arg_regenerating = False,
             arg_messageIdToRegenerate = None, arg_storedThread = Resolved None\<rparr>"
  let ?d = "Some (JObj [(''step'', JStr ''assistant_stream''), (''delta'', JStr ''Paris'')])"
  let ?s = "step local_thread_env initial_orch (ask ''What is the capital of France?'')"
  let ?s' = "step local_thread_env ?s (Submit ?a)"
  have h: "(arg_question ?a \<noteq> None \<and> arg_question ?a \<noteq> Some []) \<or> input (chat ?s) \<noteq> []" by simp
  have o: "stream_open ?s = [0]" by code_simp
  have l: "length (subs ?s) = 1" by code_simp
  have ab: "aborted_signals ?s = []" "aborted_inner ?s = []" "abortConnectionRef ?s = None" by code_simp+
  have f: "fst (onmessage (subs ?s ! 0) ?d (chat ?s')) = None" by code_simp
  have c: "streamContentRef (snd (onmessage (subs ?s ! 0) ?d (chat ?s'))) = ''Paris''" by code_simp
  have om: "onmessage (subs ?s ! 0) ?d (chat ?s') = (None, snd (onmessage (subs ?s ! 0) ?d (chat ?s')))"
    using f by (cases "onmessage (subs ?s ! 0) ?d (chat ?s')") simp
  note t = submit_cancels_nothing [OF h, of local_thread_env, unfolded Let_def]
  from t have t1: "aborted_signals ?s' = aborted_signals ?s" and t2: "aborted_inner ?s' = aborted_inner ?s"
    and t3: "abortConnectionRef ?s' = abortConnectionRef ?s"
    and t4: "stream_open ?s' = stream_open ?s @ [length (subs ?s)]"
    by blast+
  from t have t5: "0 \<in> set (stream_open ?s) \<and> 0 < length (subs ?s)
                  \<and> onmessage (subs ?s ! 0) ?d (chat ?s') = (None, snd (onmessage (subs ?s ! 0) ?d (chat ?s')))
                 \<longrightarrow> chat (step local_thread_env ?s' (Frame 0 ?d)) = snd (onmessage (subs ?s ! 0) ?d (chat ?s'))"
    by blast
  have t6: "chat (step local_thread_env ?s' (Frame 0 ?d)) = snd (onmessage (subs ?s ! 0) ?d (chat ?s'))"
    using t5 om by (simp add: o l)
  have r: "stream_open ?s' = [0, 1]" unfolding t4 o l by simp
  have q1: "abortConnectionRef (step local_thread_env ?s' (Close 0)) = Some 0" by code_simp
  have q2: "abortConnectionRef ?s' \<noteq> Some 0" unfolding t3 ab by simp
  from t have t7: "abortConnectionRef (step local_thread_env ?s' (Close 0)) = Some 0
                   \<and> abortConnectionRef ?s' \<noteq> Some 0
                  \<longrightarrow> 0 \<in> set (stream_open ?s') \<and> 0 \<notin> set (stream_open (step local_thread_env ?s' (Close 0)))"
    by blast
  have q3: "0 \<notin> set (stream_open (step local_thread_env ?s' (Close 0)))"
    using t7 q1 q2 by blast
  have p: "streamContentRef (chat (step local_thread_env ?s' (Frame 0 ?d))) = ''Paris''"
    unfolding t6 by (rule c)
  show ?thesis
    unfolding Let_def using o l f r p t1 t2 t3 ab q1 q3 by simp
qed

end
